theory Spec2Isabelle
  imports Main
begin
section \<open>Variables, assignment elements and containers\<close>

text \<open>
  Modelled from the spec: the variable handle of the host solver, declared outside
  \<^verbatim>\<open>local_search.cc\<close>. A handle is an identity together with the bounds \<open>min()\<close> and
  \<open>max()\<close> of its current domain; it is bound when the two are equal. 64-bit integers
  are modelled as \<^typ>\<open>int\<close>: no operation below is taken near the ends of the 64-bit
  range, except the explicit \<open>kint64max\<close> test of the objective filter.
\<close>

datatype IntVar = IntVar (var_id: nat) (VarMin: int) (VarMax: int)

definition Bound :: "IntVar \<Rightarrow> bool" where
  "Bound v = (VarMin v = VarMax v)"

text \<open>
  Modelled from the spec: an assignment is a container of (variable, value, activated)
  elements, iterated in insertion order; \<open>fast_add\<close> reserves a slot without a duplicate
  check, \<open>set_value\<close> and \<open>deactivate\<close> act on the slot. The value a slot holds before
  \<open>set_value\<close> is not read by any function of this development.
\<close>

record element =
  elem_Var :: IntVar
  elem_Value :: int
  elem_Activated :: bool

definition new_element :: "IntVar \<Rightarrow> element" where
  "new_element var = \<lparr>elem_Var = var, elem_Value = 0, elem_Activated = True\<rparr>"

definition elem_SetValue :: "int \<Rightarrow> element \<Rightarrow> element" where
  "elem_SetValue v e = e\<lparr>elem_Value := v\<rparr>"

definition elem_Deactivate :: "element \<Rightarrow> element" where
  "elem_Deactivate e = e\<lparr>elem_Activated := False\<rparr>"

type_synonym container = "element list"

definition Contains :: "container \<Rightarrow> IntVar \<Rightarrow> bool" where
  "Contains c var = list_ex (\<lambda>e. elem_Var e = var) c"

definition ElementOf :: "container \<Rightarrow> IntVar \<Rightarrow> element option" where
  "ElementOf c var = find (\<lambda>e. elem_Var e = var) c"

section \<open>IntVarLocalSearchOperator\<close>

text \<open>
  The operator arrays of \<^verbatim>\<open>IntVarLocalSearchOperator\<close>. Subclasses extend the record.
  The virtual methods \<^verbatim>\<open>IsIncremental\<close>, \<^verbatim>\<open>SkipUnchanged\<close>, \<^verbatim>\<open>OnStart\<close> and
  \<^verbatim>\<open>MakeOneNeighbor\<close> are parameters of the functions that call them. Indices are
  64-bit integers in the source and natural numbers here; the subclasses pass indices
  below \<open>Size()\<close> only.
\<close>

record op_state =
  vars :: "IntVar list"
  values' :: "int list"
  old_values :: "int list"
  activated :: "bool list"
  was_activated :: "bool list"
  has_changed :: "bool list"
  has_delta_changed :: "bool list"
  changes :: "nat list"
  cleared :: bool

datatype error =
    FewerVariablesThanOperator
  | DoesNotContainOperatorVariable IntVar
  | CheckFailed

definition Size :: "'a op_state_scheme \<Rightarrow> nat" where
  "Size st = length (vars st)"

definition Var :: "'a op_state_scheme \<Rightarrow> nat \<Rightarrow> IntVar" where
  "Var st index = vars st ! index"

definition Value :: "'a op_state_scheme \<Rightarrow> nat \<Rightarrow> int" where
  "Value st index = values' st ! index"

definition OldValue :: "'a op_state_scheme \<Rightarrow> nat \<Rightarrow> int" where
  "OldValue st index = old_values st ! index"

text \<open>The constructor: all bitmaps false, \<open>cleared\<close> true, no staged change.\<close>

definition IntVarLocalSearchOperator :: "IntVar list \<Rightarrow> op_state" where
  "IntVarLocalSearchOperator vs =
     \<lparr>vars = vs,
      values' = replicate (length vs) 0,
      old_values = replicate (length vs) 0,
      activated = replicate (length vs) False,
      was_activated = replicate (length vs) False,
      has_changed = replicate (length vs) False,
      has_delta_changed = replicate (length vs) False,
      changes = [],
      cleared = True\<rparr>"

subsection \<open>Start\<close>

text \<open>
  One round of the \<^verbatim>\<open>for\<close> loop of \<^verbatim>\<open>Start\<close>: the element at slot \<open>i\<close> is used when it
  holds the operator's variable; otherwise the container is searched for the variable,
  and only its absence is fatal.
\<close>

definition Start_step :: "container \<Rightarrow> nat \<Rightarrow> 'a op_state_scheme \<Rightarrow> error + 'a op_state_scheme" where
  "Start_step c i st =
     (let element = c ! i;
          var = vars st ! i;
          found = (if elem_Var element \<noteq> var
                   then (if \<not> Contains c var then Inl (DoesNotContainOperatorVariable var)
                         else (case ElementOf c var of
                                 None \<Rightarrow> Inl (DoesNotContainOperatorVariable var)
                               | Some e \<Rightarrow> Inr e))
                   else Inr element)
      in case found of
           Inl err \<Rightarrow> Inl err
         | Inr e \<Rightarrow>
             Inr (st\<lparr>values' := (values' st)[i := elem_Value e],
                     old_values := (old_values st)[i := elem_Value e],
                     activated := (activated st)[i := elem_Activated e],
                     was_activated := (was_activated st)[i := elem_Activated e]\<rparr>))"

fun Start_loop :: "container \<Rightarrow> nat list \<Rightarrow> 'a op_state_scheme \<Rightarrow> error + 'a op_state_scheme" where
  "Start_loop c [] st = Inr st"
| "Start_loop c (i # rest) st =
     (case Start_step c i st of
        Inl err \<Rightarrow> Inl err
      | Inr st' \<Rightarrow> Start_loop c rest st')"

definition Start ::
  "('a op_state_scheme \<Rightarrow> error + 'a op_state_scheme) \<Rightarrow> 'a op_state_scheme \<Rightarrow> container
     \<Rightarrow> error + 'a op_state_scheme" where
  "Start OnStart st c =
     (if length c < Size st then Inl FewerVariablesThanOperator
      else (case Start_loop c [0..<Size st] st of
              Inl err \<Rightarrow> Inl err
            | Inr st' \<Rightarrow> OnStart st'))"

text \<open>
  Modelled from the spec: the default \<^verbatim>\<open>OnStart\<close> of the base class, declared in the
  header, does nothing.
\<close>

definition OnStart_default :: "'a op_state_scheme \<Rightarrow> error + 'a op_state_scheme" where
  "OnStart_default st = Inr st"

subsection \<open>Staging changes\<close>

definition MarkChange :: "nat \<Rightarrow> 'a op_state_scheme \<Rightarrow> 'a op_state_scheme" where
  "MarkChange index st =
     (let st1 = (if \<not> has_delta_changed st ! index
                 then st\<lparr>has_delta_changed := (has_delta_changed st)[index := True]\<rparr>
                 else st)
      in if \<not> has_changed st1 ! index
         then st1\<lparr>changes := changes st1 @ [index],
                  has_changed := (has_changed st1)[index := True]\<rparr>
         else st1)"

definition SetValue :: "nat \<Rightarrow> int \<Rightarrow> 'a op_state_scheme \<Rightarrow> 'a op_state_scheme" where
  "SetValue index v st = MarkChange index (st\<lparr>values' := (values' st)[index := v]\<rparr>)"

definition Activate :: "nat \<Rightarrow> 'a op_state_scheme \<Rightarrow> 'a op_state_scheme" where
  "Activate index st = MarkChange index (st\<lparr>activated := (activated st)[index := True]\<rparr>)"

definition Deactivate :: "nat \<Rightarrow> 'a op_state_scheme \<Rightarrow> 'a op_state_scheme" where
  "Deactivate index st = MarkChange index (st\<lparr>activated := (activated st)[index := False]\<rparr>)"

subsection \<open>ApplyChanges\<close>

text \<open>
  The loop of \<^verbatim>\<open>ApplyChanges\<close> over \<open>changes\<close>, front to back; \<open>FastAdd\<close> appends to the
  container. The operator is not modified, and the function's result is the constant
  \<open>true\<close>, so only the two containers are returned.
\<close>

fun ApplyChanges_loop ::
  "bool \<Rightarrow> (nat \<Rightarrow> bool) \<Rightarrow> 'a op_state_scheme \<Rightarrow> nat list \<Rightarrow> container \<times> container
     \<Rightarrow> container \<times> container" where
  "ApplyChanges_loop IsIncremental SkipUnchanged st [] (delta, deltadelta) = (delta, deltadelta)"
| "ApplyChanges_loop IsIncremental SkipUnchanged st (index # rest) (delta, deltadelta) =
     (let var = Var st index;
          v = Value st index;
          act = activated st ! index
      in if \<not> act then
           (let deltadelta' =
                  (if \<not> cleared st \<and> has_delta_changed st ! index \<and> IsIncremental
                   then deltadelta @ [elem_Deactivate (new_element var)] else deltadelta);
                delta' = delta @ [elem_Deactivate (new_element var)]
            in ApplyChanges_loop IsIncremental SkipUnchanged st rest (delta', deltadelta'))
         else if v \<noteq> OldValue st index \<or> \<not> SkipUnchanged index then
           (let deltadelta' =
                  (if \<not> cleared st \<and> has_delta_changed st ! index \<and> IsIncremental
                   then deltadelta @ [elem_SetValue v (new_element var)] else deltadelta);
                delta' = delta @ [elem_SetValue v (new_element var)]
            in ApplyChanges_loop IsIncremental SkipUnchanged st rest (delta', deltadelta'))
         else ApplyChanges_loop IsIncremental SkipUnchanged st rest (delta, deltadelta))"

definition ApplyChanges ::
  "bool \<Rightarrow> (nat \<Rightarrow> bool) \<Rightarrow> 'a op_state_scheme \<Rightarrow> container \<times> container
     \<Rightarrow> container \<times> container" where
  "ApplyChanges IsIncremental SkipUnchanged st dd =
     ApplyChanges_loop IsIncremental SkipUnchanged st (changes st) dd"

subsection \<open>RevertChanges and MakeNextNeighbor\<close>

fun RevertChanges_loop :: "nat list \<Rightarrow> 'a op_state_scheme \<Rightarrow> 'a op_state_scheme" where
  "RevertChanges_loop [] st = st"
| "RevertChanges_loop (index # rest) st =
     RevertChanges_loop rest
       (st\<lparr>values' := (values' st)[index := old_values st ! index],
           activated := (activated st)[index := was_activated st ! index],
           has_changed := (has_changed st)[index := False]\<rparr>)"

definition RevertChanges :: "bool \<Rightarrow> bool \<Rightarrow> 'a op_state_scheme \<Rightarrow> 'a op_state_scheme" where
  "RevertChanges IsIncremental incremental st =
     (let st1 = st\<lparr>cleared := False,
                   has_delta_changed := replicate (length (has_delta_changed st)) False\<rparr>
      in if incremental \<and> IsIncremental then st1
         else (RevertChanges_loop (changes st1) (st1\<lparr>cleared := True\<rparr>))\<lparr>changes := []\<rparr>)"

text \<open>
  \<^verbatim>\<open>MakeNextNeighbor\<close>: since \<^verbatim>\<open>ApplyChanges\<close> returns true on every path, the body of the
  \<^verbatim>\<open>while (true)\<close> loop runs once. The result is the returned flag, the operator and the
  two containers.
\<close>

definition MakeNextNeighbor ::
  "bool \<Rightarrow> ('a op_state_scheme \<Rightarrow> nat \<Rightarrow> bool) \<Rightarrow> ('a op_state_scheme \<Rightarrow> bool \<times> 'a op_state_scheme)
     \<Rightarrow> 'a op_state_scheme \<Rightarrow> container \<times> container
     \<Rightarrow> bool \<times> 'a op_state_scheme \<times> container \<times> container" where
  "MakeNextNeighbor IsIncremental SkipUnchanged MakeOneNeighbor st dd =
     (let st1 = RevertChanges IsIncremental True st;
          (ok, st2) = MakeOneNeighbor st1
      in if \<not> ok then (False, st2, dd)
         else (True, st2, ApplyChanges IsIncremental (SkipUnchanged st2) st2 dd))"

text \<open>
  Modelled from the spec: the defaults of the base class, declared in the header. An
  operator is not incremental unless it says so (\<^verbatim>\<open>TwoOpt\<close> alone overrides
  \<^verbatim>\<open>IsIncremental\<close>), and no unchanged value is skipped unless the operator asks for it
  (the path operators override \<^verbatim>\<open>SkipUnchanged\<close>).
\<close>

definition SkipUnchanged_default :: "'a op_state_scheme \<Rightarrow> nat \<Rightarrow> bool" where
  "SkipUnchanged_default st index = False"

section \<open>MoveTowardTargetLS\<close>

text \<open>
  The operator keeps the target values, the rotating cursor \<open>variable_index\<close> and the
  number of variables examined since the last \<^verbatim>\<open>OnStart\<close>. The constructor leaves
  \<open>num_var_since_last_start\<close> uninitialised; \<^verbatim>\<open>OnStart\<close> sets it before it is read, and the
  model starts it at 0.
\<close>

record mtt_state = op_state +
  target :: "int list"
  variable_index :: int
  num_var_since_last_start :: int

definition MoveTowardTargetLS :: "IntVar list \<Rightarrow> int list \<Rightarrow> error + mtt_state" where
  "MoveTowardTargetLS variables target_values =
     (if length target_values \<noteq> length variables then Inl CheckFailed
      else Inr (op_state.extend (IntVarLocalSearchOperator variables)
                  \<lparr>target = target_values,
                   variable_index = int (length variables) - 1,
                   num_var_since_last_start = 0\<rparr>))"

definition MTT_OnStart :: "mtt_state \<Rightarrow> error + mtt_state" where
  "MTT_OnStart st =
     (if \<not> 0 \<le> variable_index st then Inl CheckFailed
      else if \<not> variable_index st < int (Size st) then Inl CheckFailed
      else Inr (st\<lparr>num_var_since_last_start := 0\<rparr>))"

function MTT_MakeOneNeighbor :: "mtt_state \<Rightarrow> bool \<times> mtt_state" where
  "MTT_MakeOneNeighbor st =
     (if num_var_since_last_start st < int (Size st) then
        (let st1 = st\<lparr>num_var_since_last_start := num_var_since_last_start st + 1\<rparr>;
             st2 = st1\<lparr>variable_index := (variable_index st1 + 1) mod int (Size st1)\<rparr>;
             target_value = target st2 ! nat (variable_index st2);
             current_value = OldValue st2 (nat (variable_index st2))
         in if current_value \<noteq> target_value
            then (True, SetValue (nat (variable_index st2)) target_value st2)
            else MTT_MakeOneNeighbor st2)
      else (False, st))"
  by pat_completeness auto
termination
  by (relation "measure (\<lambda>st. nat (int (Size st) - num_var_since_last_start st))")
     (auto simp: Size_def)

declare MTT_MakeOneNeighbor.simps [simp del]

text \<open>One call of \<^verbatim>\<open>MakeNextNeighbor\<close> on the operator, with cleared containers.\<close>

definition mtt_next :: "mtt_state \<Rightarrow> bool \<times> mtt_state \<times> container \<times> container" where
  "mtt_next st = MakeNextNeighbor False SkipUnchanged_default MTT_MakeOneNeighbor st ([], [])"

section \<open>ChangeValue and IncrementValue\<close>

text \<open>
  \<^verbatim>\<open>ChangeValue\<close> sweeps the variables once per episode; the virtual \<^verbatim>\<open>ModifyValue\<close> is a
  parameter, and \<^verbatim>\<open>IncrementValue\<close> supplies \<open>value + 1\<close>.
\<close>

record change_value = op_state +
  cv_index :: nat

definition ChangeValue :: "IntVar list \<Rightarrow> change_value" where
  "ChangeValue vs = op_state.extend (IntVarLocalSearchOperator vs) \<lparr>cv_index = 0\<rparr>"

definition ChangeValue_MakeOneNeighbor ::
  "(nat \<Rightarrow> int \<Rightarrow> int) \<Rightarrow> change_value \<Rightarrow> bool \<times> change_value" where
  "ChangeValue_MakeOneNeighbor ModifyValue st =
     (if cv_index st < Size st then
        (let v = ModifyValue (cv_index st) (Value st (cv_index st));
             st1 = SetValue (cv_index st) v st;
             st2 = st1\<lparr>cv_index := cv_index st1 + 1\<rparr>
         in (True, st2))
      else (False, st))"

definition ChangeValue_OnStart :: "change_value \<Rightarrow> error + change_value" where
  "ChangeValue_OnStart st = Inr (st\<lparr>cv_index := 0\<rparr>)"

definition IncrementValue_ModifyValue :: "nat \<Rightarrow> int \<Rightarrow> int" where
  "IncrementValue_ModifyValue index v = v + 1"

section \<open>PathOperator\<close>

text \<open>
  A path operator reads the first \<open>number_of_nexts\<close> variables as the successor of each
  node and, unless \<open>ignore_path_vars\<close>, the following \<open>number_of_nexts\<close> variables as the
  route of each node. Node identifiers are 64-bit integers in the source (\<open>-1\<close> stands
  for "no node"), integers here.
\<close>

record path_state = op_state +
  number_of_nexts :: nat
  ignore_path_vars :: bool
  base_nodes :: "int list"
  end_nodes :: "int list"
  base_paths :: "nat list"
  path_starts :: "int list"
  inactives :: "bool list"
  just_started :: bool
  first_start :: bool

text \<open>
  Modelled from the spec: the accessors declared in the operator's header. A node is a
  path end when it is not below \<open>number_of_nexts\<close> (the cursor "falls off the end");
  \<open>Next\<close> and \<open>Path\<close> read the staged arrays, \<open>OldNext\<close> the reference array; \<open>SetNext\<close>
  stages a successor and, with path variables, a route. Reading a successor at a
  negative node has no defined behaviour in the source; the theorems about walks assume
  node identifiers are not negative.
\<close>

definition IsPathEnd :: "'a path_state_scheme \<Rightarrow> int \<Rightarrow> bool" where
  "IsPathEnd st i = (i \<ge> int (number_of_nexts st))"

definition Next :: "'a path_state_scheme \<Rightarrow> int \<Rightarrow> int" where
  "Next st node_index = Value st (nat node_index)"

definition OldNext :: "'a path_state_scheme \<Rightarrow> int \<Rightarrow> int" where
  "OldNext st node_index = OldValue st (nat node_index)"

definition Path :: "'a path_state_scheme \<Rightarrow> int \<Rightarrow> int" where
  "Path st node_index =
     (if ignore_path_vars st then 0 else Value st (nat node_index + number_of_nexts st))"

definition SetNext :: "int \<Rightarrow> int \<Rightarrow> int \<Rightarrow> 'a path_state_scheme \<Rightarrow> 'a path_state_scheme" where
  "SetNext from to path st =
     (let st1 = SetValue (nat from) to st
      in if \<not> ignore_path_vars st1
         then SetValue (nat from + number_of_nexts st1) path st1
         else st1)"

subsection \<open>CheckChainValidity\<close>

text \<open>
  The \<^verbatim>\<open>while\<close> loop of \<^verbatim>\<open>CheckChainValidity\<close>, on the walking node \<open>current\<close> and the step
  count \<open>chain_size\<close>; the watchdog on \<open>chain_size\<close> bounds the number of rounds.
\<close>

function CheckChainValidity_loop ::
  "'a path_state_scheme \<Rightarrow> int \<Rightarrow> int \<Rightarrow> int \<Rightarrow> nat \<Rightarrow> bool" where
  "CheckChainValidity_loop st chain_end exclude current chain_size =
     (if current \<noteq> chain_end then
        (if chain_size > number_of_nexts st then False
         else if IsPathEnd st current then False
         else (let current' = Next st current;
                   chain_size' = chain_size + 1
               in if current' = exclude then False
                  else CheckChainValidity_loop st chain_end exclude current' chain_size'))
      else True)"
  by pat_completeness auto
termination
  by (relation "measure (\<lambda>(st, chain_end, exclude, current, chain_size).
                  number_of_nexts st + 1 - chain_size)") auto

declare CheckChainValidity_loop.simps [simp del]

definition CheckChainValidity :: "'a path_state_scheme \<Rightarrow> int \<Rightarrow> int \<Rightarrow> int \<Rightarrow> bool" where
  "CheckChainValidity st before_chain chain_end exclude =
     (if before_chain = chain_end \<or> before_chain = exclude then False
      else CheckChainValidity_loop st chain_end exclude before_chain 0)"

subsection \<open>Cursors\<close>

text \<open>
  Modelled from the spec: the remaining accessors of the header, and the defaults of the
  virtual methods the cursor iteration calls. \<open>BaseNode(i)\<close> is the position of cursor
  \<open>i\<close>, \<open>StartNode(i)\<close> the head of the route the cursor is on, a node is inactive when it
  is no path end and its reference successor is itself; by default a restarted cursor is
  placed at the route start (\<^verbatim>\<open>GetBaseNodeRestartPosition\<close>), cursors need not share a
  route (\<^verbatim>\<open>OnSamePathAsPreviousBase\<close>), and the positions are neither reset
  (\<^verbatim>\<open>InitPosition\<close>) nor pulled to the route start (\<^verbatim>\<open>RestartAtPathStartOnSynchronize\<close>) on
  \<^verbatim>\<open>Start\<close>. These virtual methods are parameters of the functions below.
\<close>

definition BaseNode :: "'a path_state_scheme \<Rightarrow> nat \<Rightarrow> int" where
  "BaseNode st i = base_nodes st ! i"

definition StartNode :: "'a path_state_scheme \<Rightarrow> nat \<Rightarrow> int" where
  "StartNode st i = path_starts st ! (base_paths st ! i)"

definition IsInactive :: "'a path_state_scheme \<Rightarrow> int \<Rightarrow> bool" where
  "IsInactive st i = (\<not> IsPathEnd st i \<and> inactives st ! nat i)"

definition GetBaseNodeRestartPosition_default :: "'a path_state_scheme \<Rightarrow> nat \<Rightarrow> int" where
  "GetBaseNodeRestartPosition_default st base_index = StartNode st base_index"

text \<open>The constructor; with path variables the operator tracks both arrays of variables.\<close>

definition PathOperator :: "IntVar list \<Rightarrow> IntVar list option \<Rightarrow> nat \<Rightarrow> path_state" where
  "PathOperator next_vars path_vars number_of_base_nodes =
     op_state.extend
       (IntVarLocalSearchOperator (next_vars @ (case path_vars of None \<Rightarrow> [] | Some pv \<Rightarrow> pv)))
       \<lparr>number_of_nexts = length next_vars,
        ignore_path_vars = (path_vars = None),
        base_nodes = replicate number_of_base_nodes 0,
        end_nodes = replicate number_of_base_nodes 0,
        base_paths = replicate number_of_base_nodes 0,
        path_starts = [],
        inactives = [],
        just_started = False,
        first_start = True\<rparr>"

fun CheckEnds_loop :: "'a path_state_scheme \<Rightarrow> nat list \<Rightarrow> bool" where
  "CheckEnds_loop st [] = False"
| "CheckEnds_loop st (i # rest) =
     (if base_nodes st ! i \<noteq> end_nodes st ! i then True else CheckEnds_loop st rest)"

definition CheckEnds :: "'a path_state_scheme \<Rightarrow> bool" where
  "CheckEnds st = CheckEnds_loop st [0..<length (base_nodes st)]"

text \<open>
  The three loops of \<^verbatim>\<open>IncrementPosition\<close>. The first runs over the cursors from the last
  to the first and stops at the first cursor it can advance; it returns the index of
  the last cursor restarted. The third returns \<open>Some\<close> of the function's result when it
  returns from inside the loop.
\<close>

fun IncrementPosition_advance ::
  "nat list \<Rightarrow> nat \<Rightarrow> 'a path_state_scheme \<Rightarrow> nat \<times> 'a path_state_scheme" where
  "IncrementPosition_advance [] last_restarted st = (last_restarted, st)"
| "IncrementPosition_advance (i # rest) last_restarted st =
     (if base_nodes st ! i < int (number_of_nexts st)
      then (last_restarted,
            st\<lparr>base_nodes := (base_nodes st)[i := OldNext st (base_nodes st ! i)]\<rparr>)
      else IncrementPosition_advance rest i
             (st\<lparr>base_nodes := (base_nodes st)[i := StartNode st i]\<rparr>))"

fun IncrementPosition_reposition ::
  "('a path_state_scheme \<Rightarrow> nat \<Rightarrow> int) \<Rightarrow> nat list \<Rightarrow> 'a path_state_scheme
     \<Rightarrow> 'a path_state_scheme" where
  "IncrementPosition_reposition GetBaseNodeRestartPosition [] st = st"
| "IncrementPosition_reposition GetBaseNodeRestartPosition (i # rest) st =
     IncrementPosition_reposition GetBaseNodeRestartPosition rest
       (st\<lparr>base_nodes := (base_nodes st)[i := GetBaseNodeRestartPosition st i]\<rparr>)"

fun IncrementPosition_paths ::
  "(nat \<Rightarrow> bool) \<Rightarrow> nat list \<Rightarrow> 'a path_state_scheme \<Rightarrow> bool option \<times> 'a path_state_scheme" where
  "IncrementPosition_paths OnSamePathAsPreviousBase [] st = (None, st)"
| "IncrementPosition_paths OnSamePathAsPreviousBase (i # rest) st =
     (let next_path_index = base_paths st ! i + 1
      in if next_path_index < length (path_starts st) then
           (let st1 = st\<lparr>base_paths := (base_paths st)[i := next_path_index],
                         base_nodes := (base_nodes st)[i := path_starts st ! next_path_index]\<rparr>
            in if i = 0 \<or> \<not> OnSamePathAsPreviousBase i then (Some (CheckEnds st1), st1)
               else IncrementPosition_paths OnSamePathAsPreviousBase rest st1)
         else IncrementPosition_paths OnSamePathAsPreviousBase rest
                (st\<lparr>base_paths := (base_paths st)[i := 0],
                    base_nodes := (base_nodes st)[i := path_starts st ! 0]\<rparr>))"

definition IncrementPosition ::
  "(nat \<Rightarrow> bool) \<Rightarrow> ('a path_state_scheme \<Rightarrow> nat \<Rightarrow> int) \<Rightarrow> 'a path_state_scheme
     \<Rightarrow> bool \<times> 'a path_state_scheme" where
  "IncrementPosition OnSamePathAsPreviousBase GetBaseNodeRestartPosition st =
     (let base_node_size = length (base_nodes st)
      in if \<not> just_started st then
           (let (last_restarted, st1) =
                  IncrementPosition_advance (rev [0..<base_node_size]) base_node_size st;
                st2 = IncrementPosition_reposition GetBaseNodeRestartPosition
                        [last_restarted..<base_node_size] st1
            in if last_restarted > 0 then (CheckEnds st2, st2)
               else (case IncrementPosition_paths OnSamePathAsPreviousBase
                            (rev [0..<base_node_size]) st2 of
                       (Some result, st3) \<Rightarrow> (result, st3)
                     | (None, st3) \<Rightarrow> (CheckEnds st3, st3)))
         else (True, st\<lparr>just_started := False\<rparr>))"

subsection \<open>Initialisation on Start\<close>

fun InitializePathStarts_prevs :: "'a path_state_scheme \<Rightarrow> nat list \<Rightarrow> bool list \<Rightarrow> bool list" where
  "InitializePathStarts_prevs st [] has_prevs = has_prevs"
| "InitializePathStarts_prevs st (i # rest) has_prevs =
     (let nxt = OldNext st (int i)
      in InitializePathStarts_prevs st rest
           (if nxt < int (number_of_nexts st) then has_prevs[nat nxt := True] else has_prevs))"

definition InitializePathStarts :: "'a path_state_scheme \<Rightarrow> 'a path_state_scheme" where
  "InitializePathStarts st =
     (let has_prevs = InitializePathStarts_prevs st [0..<number_of_nexts st]
                        (replicate (number_of_nexts st) False)
      in st\<lparr>path_starts := map int (filter (\<lambda>i. \<not> has_prevs ! i) [0..<number_of_nexts st])\<rparr>)"

definition InitializeInactives :: "'a path_state_scheme \<Rightarrow> 'a path_state_scheme" where
  "InitializeInactives st =
     st\<lparr>inactives := map (\<lambda>i. OldNext st (int i) = int i) [0..<number_of_nexts st]\<rparr>"

text \<open>
  \<^verbatim>\<open>OnSamePath\<close> walks the reference successors from each node to the end of its route.
  On a reference with a cycle the walk need not end: the result is then \<open>None\<close>.
\<close>

partial_function (option) OnSamePath_walk :: "'a path_state_scheme \<Rightarrow> int \<Rightarrow> int \<Rightarrow> bool option" where
  "OnSamePath_walk st node goal =
     (if \<not> IsPathEnd st node
      then (if node = goal then Some True else OnSamePath_walk st (OldNext st node) goal)
      else Some False)"

declare OnSamePath_walk.simps [code]

definition OnSamePath :: "'a path_state_scheme \<Rightarrow> int \<Rightarrow> int \<Rightarrow> bool option" where
  "OnSamePath st node1 node2 =
     (if IsInactive st node1 \<noteq> IsInactive st node2 then Some False
      else (case OnSamePath_walk st node1 node2 of
              None \<Rightarrow> None
            | Some True \<Rightarrow> Some True
            | Some False \<Rightarrow> OnSamePath_walk st node2 node1))"

fun InitializeBaseNodes_reset :: "nat list \<Rightarrow> 'a path_state_scheme \<Rightarrow> 'a path_state_scheme" where
  "InitializeBaseNodes_reset [] st = st"
| "InitializeBaseNodes_reset (i # rest) st =
     InitializeBaseNodes_reset rest
       (st\<lparr>base_paths := (base_paths st)[i := 0],
           base_nodes := (base_nodes st)[i := path_starts st ! 0]\<rparr>)"

fun InitializeBaseNodes_ends :: "bool \<Rightarrow> nat list \<Rightarrow> 'a path_state_scheme \<Rightarrow> 'a path_state_scheme" where
  "InitializeBaseNodes_ends RestartAtPathStartOnSynchronize [] st = st"
| "InitializeBaseNodes_ends RestartAtPathStartOnSynchronize (i # rest) st =
     (let base_node = base_nodes st ! i
      in if RestartAtPathStartOnSynchronize \<or> IsInactive st base_node then
           (let base_node' = path_starts st ! (base_paths st ! i)
            in InitializeBaseNodes_ends RestartAtPathStartOnSynchronize rest
                 (st\<lparr>base_nodes := (base_nodes st)[i := base_node'],
                     end_nodes := (end_nodes st)[i := base_node']\<rparr>))
         else InitializeBaseNodes_ends RestartAtPathStartOnSynchronize rest
                (st\<lparr>end_nodes := (end_nodes st)[i := base_node]\<rparr>))"

fun InitializeBaseNodes_repair ::
  "(nat \<Rightarrow> bool) \<Rightarrow> nat list \<Rightarrow> 'a path_state_scheme \<Rightarrow> 'a path_state_scheme option" where
  "InitializeBaseNodes_repair OnSamePathAsPreviousBase [] st = Some st"
| "InitializeBaseNodes_repair OnSamePathAsPreviousBase (i # rest) st =
     (if OnSamePathAsPreviousBase i then
        (case OnSamePath st (base_nodes st ! (i - 1)) (base_nodes st ! i) of
           None \<Rightarrow> None
         | Some True \<Rightarrow> InitializeBaseNodes_repair OnSamePathAsPreviousBase rest st
         | Some False \<Rightarrow>
             (let base_node = base_nodes st ! (i - 1)
              in InitializeBaseNodes_repair OnSamePathAsPreviousBase rest
                   (st\<lparr>base_nodes := (base_nodes st)[i := base_node],
                       end_nodes := (end_nodes st)[i := base_node]\<rparr>)))
      else InitializeBaseNodes_repair OnSamePathAsPreviousBase rest st)"

definition InitializeBaseNodes ::
  "(nat \<Rightarrow> bool) \<Rightarrow> bool \<Rightarrow> bool \<Rightarrow> 'a path_state_scheme \<Rightarrow> 'a path_state_scheme option" where
  "InitializeBaseNodes OnSamePathAsPreviousBase InitPosition RestartAtPathStartOnSynchronize st =
     (let st1 = InitializeInactives (InitializePathStarts st);
          st2 = (if first_start st1 \<or> InitPosition
                 then (InitializeBaseNodes_reset [0..<length (base_nodes st1)] st1)
                        \<lparr>first_start := False\<rparr>
                 else st1);
          st3 = InitializeBaseNodes_ends RestartAtPathStartOnSynchronize
                  [0..<length (base_nodes st2)] st2
      in case InitializeBaseNodes_repair OnSamePathAsPreviousBase
                [1..<length (base_nodes st3)] st3 of
           None \<Rightarrow> None
         | Some st4 \<Rightarrow> Some (st4\<lparr>just_started := True\<rparr>))"

text \<open>
  \<^verbatim>\<open>PathOperator::OnStart\<close>; a walk of \<^verbatim>\<open>OnSamePath\<close> that does not end leaves \<^verbatim>\<open>Start\<close>
  without a result.
\<close>

definition PathOperator_OnStart ::
  "(nat \<Rightarrow> bool) \<Rightarrow> bool \<Rightarrow> bool \<Rightarrow> ('a path_state_scheme \<Rightarrow> 'a path_state_scheme)
     \<Rightarrow> 'a path_state_scheme \<Rightarrow> 'a path_state_scheme option" where
  "PathOperator_OnStart OnSamePathAsPreviousBase InitPosition RestartAtPathStartOnSynchronize
       OnNodeInitialization st =
     map_option OnNodeInitialization
       (InitializeBaseNodes OnSamePathAsPreviousBase InitPosition RestartAtPathStartOnSynchronize st)"

subsection \<open>Edits of the next-vector\<close>

text \<open>
  The loops of \<^verbatim>\<open>ReverseChain\<close> and \<^verbatim>\<open>MoveChain\<close> follow the staged successors while they
  rewrite them; a loop that does not end gives \<open>None\<close>.
\<close>

partial_function (option) ReverseChain_loop ::
  "int \<Rightarrow> int \<Rightarrow> int \<Rightarrow> int \<Rightarrow> 'a path_state_scheme \<Rightarrow> (int \<times> 'a path_state_scheme) option" where
  "ReverseChain_loop after_chain path current current_next st =
     (if current_next \<noteq> after_chain then
        ReverseChain_loop after_chain path current_next (Next st current_next)
          (SetNext current_next current path st)
      else Some (current, st))"

declare ReverseChain_loop.simps [code]

text \<open>The result is the returned flag, the node written to \<open>chain_last\<close> and the operator.\<close>

definition ReverseChain ::
  "int \<Rightarrow> int \<Rightarrow> 'a path_state_scheme \<Rightarrow> (bool \<times> int option \<times> 'a path_state_scheme) option" where
  "ReverseChain before_chain after_chain st =
     (if CheckChainValidity st before_chain after_chain (- 1) then
        (let path = Path st before_chain;
             current = Next st before_chain
         in if current = after_chain then Some (False, None, st)
            else (let current_next = Next st current;
                      st1 = SetNext current after_chain path st
                  in case ReverseChain_loop after_chain path current current_next st1 of
                       None \<Rightarrow> None
                     | Some (current', st2) \<Rightarrow>
                         Some (True, Some current', SetNext before_chain current' path st2)))
      else Some (False, None, st))"

partial_function (option) MoveChain_loop ::
  "int \<Rightarrow> int \<Rightarrow> int \<Rightarrow> int \<Rightarrow> 'a path_state_scheme \<Rightarrow> 'a path_state_scheme option" where
  "MoveChain_loop chain_end destination_path current nxt st =
     (if current \<noteq> chain_end then
        (let st1 = SetNext current nxt destination_path st
         in MoveChain_loop chain_end destination_path nxt (Next st1 nxt) st1)
      else Some st)"

declare MoveChain_loop.simps [code]

definition MoveChain ::
  "int \<Rightarrow> int \<Rightarrow> int \<Rightarrow> 'a path_state_scheme \<Rightarrow> (bool \<times> 'a path_state_scheme) option" where
  "MoveChain before_chain chain_end destination st =
     (if CheckChainValidity st before_chain chain_end destination
         \<and> \<not> IsPathEnd st chain_end \<and> \<not> IsPathEnd st destination then
        (let destination_path = Path st destination;
             after_chain = Next st chain_end;
             st1 = SetNext chain_end (Next st destination) destination_path st;
             moved = (if \<not> ignore_path_vars st1
                      then MoveChain_loop chain_end destination_path destination
                             (Next st1 before_chain) st1
                      else Some (SetNext destination (Next st1 before_chain) destination_path st1))
         in case moved of
              None \<Rightarrow> None
            | Some st2 \<Rightarrow> Some (True, SetNext before_chain after_chain (Path st2 before_chain) st2))
      else Some (False, st))"

subsection \<open>PathOperator::MakeOneNeighbor\<close>

text \<open>
  The loop advances the cursors until \<^verbatim>\<open>MakeNeighbor\<close> succeeds or the positions are
  exhausted; \<^verbatim>\<open>IsIncremental\<close> is the operator's own, read by \<^verbatim>\<open>RevertChanges\<close>.
\<close>

partial_function (option) PathOperator_MakeOneNeighbor ::
  "bool \<Rightarrow> ('a path_state_scheme \<Rightarrow> bool \<times> 'a path_state_scheme)
     \<Rightarrow> ('a path_state_scheme \<Rightarrow> (bool \<times> 'a path_state_scheme) option)
     \<Rightarrow> 'a path_state_scheme \<Rightarrow> (bool \<times> 'a path_state_scheme) option" where
  "PathOperator_MakeOneNeighbor IsIncremental IncrementPosition' MakeNeighbor st =
     (let moved = IncrementPosition' st
      in if \<not> fst moved then Some (False, snd moved)
         else Option.bind (MakeNeighbor (RevertChanges IsIncremental True (snd moved)))
                (\<lambda>made. if fst made then Some (True, snd made)
                        else PathOperator_MakeOneNeighbor IsIncremental IncrementPosition'
                               MakeNeighbor (snd made)))"

declare PathOperator_MakeOneNeighbor.simps [code]

text \<open>
  \<^verbatim>\<open>MakeNextNeighbor\<close> of the base class, for an operator whose \<^verbatim>\<open>MakeOneNeighbor\<close> need not
  return.
\<close>

definition MakeNextNeighbor_partial ::
  "bool \<Rightarrow> ('a op_state_scheme \<Rightarrow> nat \<Rightarrow> bool)
     \<Rightarrow> ('a op_state_scheme \<Rightarrow> (bool \<times> 'a op_state_scheme) option)
     \<Rightarrow> 'a op_state_scheme \<Rightarrow> container \<times> container
     \<Rightarrow> (bool \<times> 'a op_state_scheme \<times> container \<times> container) option" where
  "MakeNextNeighbor_partial IsIncremental SkipUnchanged MakeOneNeighbor st dd =
     (case MakeOneNeighbor (RevertChanges IsIncremental True st) of
        None \<Rightarrow> None
      | Some (ok, st2) \<Rightarrow>
          Some (if \<not> ok then (False, st2, dd)
                else (True, st2, ApplyChanges IsIncremental (SkipUnchanged st2) st2 dd)))"

definition PathOperator_SkipUnchanged :: "'a path_state_scheme \<Rightarrow> nat \<Rightarrow> bool" where
  "PathOperator_SkipUnchanged st index =
     (if ignore_path_vars st then True
      else if index < number_of_nexts st then
        (let path_index = index + number_of_nexts st
         in Value st path_index = OldValue st path_index)
      else
        (let next_index = index - number_of_nexts st
         in Value st next_index = OldValue st next_index))"

section \<open>TwoOpt\<close>

record two_opt = path_state +
  last_base :: int
  last :: int

definition TwoOpt :: "IntVar list \<Rightarrow> IntVar list option \<Rightarrow> two_opt" where
  "TwoOpt next_vars secondary_vars =
     path_state.extend (PathOperator next_vars secondary_vars 2) \<lparr>last_base = - 1, last = - 1\<rparr>"

definition TwoOpt_OnNodeInitialization :: "two_opt \<Rightarrow> two_opt" where
  "TwoOpt_OnNodeInitialization st = st\<lparr>last := - 1\<rparr>"

definition TwoOpt_MakeNeighbor :: "two_opt \<Rightarrow> (bool \<times> two_opt) option" where
  "TwoOpt_MakeNeighbor st =
     (if last_base st \<noteq> BaseNode st 0 \<or> last st = - 1 then
        (let st1 = RevertChanges True False st
         in if IsPathEnd st1 (BaseNode st1 0) then Some (False, st1\<lparr>last := - 1\<rparr>)
            else (let st2 = st1\<lparr>last_base := BaseNode st1 0\<rparr>;
                      st3 = st2\<lparr>last := Next st2 (BaseNode st2 0)\<rparr>
                  in case ReverseChain (BaseNode st3 0) (BaseNode st3 1) st3 of
                       None \<Rightarrow> None
                     | Some (True, chain_last, st4) \<Rightarrow> Some (True, st4)
                     | Some (False, chain_last, st4) \<Rightarrow> Some (False, st4\<lparr>last := - 1\<rparr>)))
      else
        (let to_move = Next st (last st)
         in MoveChain (last st) to_move (BaseNode st 0) st))"

text \<open>TwoOpt is incremental, and both its cursors are on one route.\<close>

definition TwoOpt_MakeOneNeighbor :: "two_opt \<Rightarrow> (bool \<times> two_opt) option" where
  "TwoOpt_MakeOneNeighbor =
     PathOperator_MakeOneNeighbor True
       (IncrementPosition (\<lambda>base_index. True) GetBaseNodeRestartPosition_default)
       TwoOpt_MakeNeighbor"

definition TwoOpt_Start :: "two_opt \<Rightarrow> container \<Rightarrow> (error + two_opt) option" where
  "TwoOpt_Start st c =
     (case Start OnStart_default st c of
        Inl err \<Rightarrow> Some (Inl err)
      | Inr st1 \<Rightarrow>
          map_option Inr
            (PathOperator_OnStart (\<lambda>base_index. True) False False TwoOpt_OnNodeInitialization st1))"

definition TwoOpt_MakeNextNeighbor ::
  "two_opt \<Rightarrow> container \<times> container \<Rightarrow> (bool \<times> two_opt \<times> container \<times> container) option" where
  "TwoOpt_MakeNextNeighbor =
     MakeNextNeighbor_partial True PathOperator_SkipUnchanged TwoOpt_MakeOneNeighbor"

section \<open>Cross\<close>






section \<open>Local search filters\<close>

subsection \<open>LSOperation and its three implementations\<close>

text \<open>
  \<^verbatim>\<open>SumOperation\<close> and \<^verbatim>\<open>ProductOperation\<close> hold one 64-bit value; \<^verbatim>\<open>MaxMinOperation\<close> holds
  the flag \<open>max\<close> and \<open>values_set\<close>, a \<^verbatim>\<open>std::set<int64>\<close>: an ordered set, in which an
  element is present at most once. The division of \<^verbatim>\<open>ProductOperation::Remove\<close> is the
  truncating division of the source language.
\<close>

datatype LSOperation =
    SumOperation int
  | ProductOperation int
  | MaxMinOperation bool "int set"

definition int64_div :: "int \<Rightarrow> int \<Rightarrow> int" where
  "int64_div a b = sgn a * sgn b * (\<bar>a\<bar> div \<bar>b\<bar>)"

fun op_Init :: "LSOperation \<Rightarrow> LSOperation" where
  "op_Init (SumOperation v) = SumOperation 0"
| "op_Init (ProductOperation v) = ProductOperation 1"
| "op_Init (MaxMinOperation mx values_set) = MaxMinOperation mx {}"

fun op_Update :: "int \<Rightarrow> LSOperation \<Rightarrow> LSOperation" where
  "op_Update update (SumOperation v) = SumOperation (v + update)"
| "op_Update update (ProductOperation v) = ProductOperation (v * update)"
| "op_Update update (MaxMinOperation mx values_set) = MaxMinOperation mx (insert update values_set)"

fun op_Remove :: "int \<Rightarrow> LSOperation \<Rightarrow> LSOperation" where
  "op_Remove remove (SumOperation v) = SumOperation (v - remove)"
| "op_Remove remove (ProductOperation v) =
     (if remove \<noteq> 0 then ProductOperation (int64_div v remove) else ProductOperation v)"
| "op_Remove remove (MaxMinOperation mx values_set) = MaxMinOperation mx (values_set - {remove})"

fun op_value :: "LSOperation \<Rightarrow> int" where
  "op_value (SumOperation v) = v"
| "op_value (ProductOperation v) = v"
| "op_value (MaxMinOperation mx values_set) =
     (if values_set \<noteq> {} then (if mx then Max values_set else Min values_set) else 0)"

fun op_set_value :: "int \<Rightarrow> LSOperation \<Rightarrow> LSOperation" where
  "op_set_value new_value (SumOperation v) = SumOperation new_value"
| "op_set_value new_value (ProductOperation v) = ProductOperation new_value"
| "op_set_value new_value (MaxMinOperation mx values_set) = MaxMinOperation mx values_set"

datatype LocalSearchOperation = Solver_SUM | Solver_PROD | Solver_MAX | Solver_MIN

fun OperationFromEnum :: "LocalSearchOperation \<Rightarrow> LSOperation" where
  "OperationFromEnum Solver_SUM = SumOperation 0"
| "OperationFromEnum Solver_PROD = ProductOperation 0"
| "OperationFromEnum Solver_MAX = MaxMinOperation True {}"
| "OperationFromEnum Solver_MIN = MaxMinOperation False {}"

subsection \<open>Assignments as the filters read them\<close>

text \<open>
  Modelled from the spec: an assignment carries, besides its elements, the optional
  objective fields \<open>objective_var\<close>, \<open>objective_min\<close> and \<open>objective_max\<close>.
\<close>

record assignment =
  IntVarContainer :: container
  Objective :: "IntVar option"
  ObjectiveMin :: int
  ObjectiveMax :: int

definition Empty :: "assignment \<Rightarrow> bool" where
  "Empty a = (IntVarContainer a = [])"

subsection \<open>IntVarLocalSearchFilter\<close>

record filter_state =
  f_vars :: "IntVar list"
  f_values :: "int list"
  var_to_index :: "IntVar \<Rightarrow> nat option"

definition f_Size :: "'a filter_state_scheme \<Rightarrow> nat" where
  "f_Size f = length (f_vars f)"

fun AddVars_index :: "IntVar list \<Rightarrow> nat \<Rightarrow> (IntVar \<Rightarrow> nat option) \<Rightarrow> IntVar \<Rightarrow> nat option" where
  "AddVars_index [] k m = m"
| "AddVars_index (v # vs) k m = AddVars_index vs (Suc k) (m(v \<mapsto> k))"

definition filter_AddVars :: "IntVar list \<Rightarrow> 'a filter_state_scheme \<Rightarrow> 'a filter_state_scheme" where
  "filter_AddVars vs f =
     (if 0 < length vs
      then f\<lparr>var_to_index := AddVars_index vs (f_Size f) (var_to_index f),
             f_vars := f_vars f @ vs,
             f_values := replicate (f_Size f + length vs) 0\<rparr>
      else f)"

text \<open>
  Modelled from the spec: \<^verbatim>\<open>FindIndex\<close>, declared in the header, looks the variable up in
  the map \<open>var_to_index\<close> that \<^verbatim>\<open>AddVars\<close> fills.
\<close>

definition FindIndex :: "'a filter_state_scheme \<Rightarrow> IntVar \<Rightarrow> nat option" where
  "FindIndex f var = var_to_index f var"

fun Synchronize_loop :: "container \<Rightarrow> nat \<Rightarrow> 'a filter_state_scheme \<Rightarrow> 'a filter_state_scheme" where
  "Synchronize_loop [] i f = f"
| "Synchronize_loop (element # rest) i f =
     (let var = elem_Var element;
          f' = (if i < f_Size f \<and> f_vars f ! i = var
                then f\<lparr>f_values := (f_values f)[i := elem_Value element]\<rparr>
                else (case FindIndex f var of
                        Some index \<Rightarrow> f\<lparr>f_values := (f_values f)[index := elem_Value element]\<rparr>
                      | None \<Rightarrow> f))
      in Synchronize_loop rest (Suc i) f')"

subsection \<open>ObjectiveFilter with a binary evaluator\<close>

datatype LocalSearchFilterBound = Solver_GE | Solver_LE | Solver_EQ

record objective_filter = filter_state +
  primary_vars_size :: nat
  cache :: "int list"
  delta_cache :: "int list"
  objective :: IntVar
  filter_enum :: LocalSearchFilterBound
  op :: LSOperation
  old_value :: int
  old_delta_value :: int
  incremental :: bool
  value_evaluator :: "nat \<Rightarrow> int \<Rightarrow> int"

definition kint64max :: int where
  "kint64max = 2 ^ 63 - 1"

definition BinaryObjectiveFilter ::
  "IntVar list \<Rightarrow> (nat \<Rightarrow> int \<Rightarrow> int) \<Rightarrow> IntVar \<Rightarrow> LocalSearchFilterBound \<Rightarrow> LSOperation
     \<Rightarrow> objective_filter" where
  "BinaryObjectiveFilter vs evaluator obj bound operation =
     (let base = filter_AddVars vs
                   \<lparr>f_vars = [], f_values = [], var_to_index = (\<lambda>v. None),
                    primary_vars_size = length vs,
                    cache = replicate (length vs) 0,
                    delta_cache = replicate (length vs) 0,
                    objective = obj,
                    filter_enum = bound,
                    op = op_Init operation,
                    old_value = 0,
                    old_delta_value = 0,
                    incremental = False,
                    value_evaluator = evaluator\<rparr>
      in base\<lparr>old_value := op_value (op base)\<rparr>)"

definition SynchronizedElementValue :: "objective_filter \<Rightarrow> nat \<Rightarrow> int" where
  "SynchronizedElementValue f index = value_evaluator f index (f_values f ! index)"

text \<open>
  \<^verbatim>\<open>BinaryObjectiveFilter::EvaluateElementValue\<close>: the contribution of the element at the
  current position of the container, when there is one; the position is not moved.
\<close>

definition EvaluateElementValue :: "objective_filter \<Rightarrow> element \<Rightarrow> nat \<Rightarrow> int option" where
  "EvaluateElementValue f element index =
     (if elem_Activated element then Some (value_evaluator f index (elem_Value element))
      else (let var = elem_Var element
            in if Bound var then Some (value_evaluator f index (VarMin var)) else None))"

fun OnSynchronize_loop :: "nat list \<Rightarrow> objective_filter \<Rightarrow> objective_filter" where
  "OnSynchronize_loop [] f = f"
| "OnSynchronize_loop (i # rest) f =
     (let obj_value = SynchronizedElementValue f i
      in OnSynchronize_loop rest
           (f\<lparr>cache := (cache f)[i := obj_value],
              delta_cache := (delta_cache f)[i := obj_value],
              op := op_Update obj_value (op f)\<rparr>))"

definition OnSynchronize :: "objective_filter \<Rightarrow> objective_filter" where
  "OnSynchronize f =
     (let f1 = OnSynchronize_loop [0..<primary_vars_size f] (f\<lparr>op := op_Init (op f)\<rparr>);
          f2 = f1\<lparr>old_value := op_value (op f1)\<rparr>
      in f2\<lparr>old_delta_value := old_value f2, incremental := False\<rparr>)"

definition Synchronize :: "objective_filter \<Rightarrow> assignment \<Rightarrow> objective_filter" where
  "Synchronize f a = OnSynchronize (Synchronize_loop (IntVarContainer a) 0 f)"

text \<open>
  \<^verbatim>\<open>Evaluate\<close>: \<open>out_values\<close> is \<open>cache\<close> or \<open>delta_cache\<close>; the parameter \<open>use_delta_cache\<close>
  says which, since \<open>delta_cache\<close> is written inside the loop that reads it.
\<close>

fun Evaluate_loop :: "container \<Rightarrow> bool \<Rightarrow> bool \<Rightarrow> objective_filter \<Rightarrow> objective_filter" where
  "Evaluate_loop [] use_delta_cache cache_delta_values f = f"
| "Evaluate_loop (elt # rest) use_delta_cache cache_delta_values f =
     (let var = elem_Var elt;
          f' = (case FindIndex f var of
                  None \<Rightarrow> f
                | Some index \<Rightarrow>
                    if index < primary_vars_size f then
                      (let out_values = (if use_delta_cache then delta_cache f else cache f);
                           f1 = f\<lparr>op := op_Remove (out_values ! index) (op f)\<rparr>
                       in case EvaluateElementValue f1 elt index of
                            None \<Rightarrow> f1
                          | Some obj_value \<Rightarrow>
                              (let f2 = f1\<lparr>op := op_Update obj_value (op f1)\<rparr>
                               in if cache_delta_values
                                  then f2\<lparr>delta_cache := (delta_cache f2)[index := obj_value]\<rparr>
                                  else f2))
                    else f)
      in Evaluate_loop rest use_delta_cache cache_delta_values f')"

definition Evaluate ::
  "assignment \<Rightarrow> int \<Rightarrow> bool \<Rightarrow> bool \<Rightarrow> objective_filter \<Rightarrow> int \<times> objective_filter" where
  "Evaluate delta current_value use_delta_cache cache_delta_values f =
     (if current_value = kint64max then (current_value, f)
      else (let f1 = f\<lparr>op := op_set_value current_value (op f)\<rparr>;
                f2 = Evaluate_loop (IntVarContainer delta) use_delta_cache cache_delta_values f1
            in (op_value (op f2), f2)))"

definition Accept :: "assignment option \<Rightarrow> assignment \<Rightarrow> objective_filter \<Rightarrow> bool \<times> objective_filter" where
  "Accept delta_opt deltadelta f =
     (case delta_opt of
        None \<Rightarrow> (False, f)
      | Some delta \<Rightarrow>
          (let (v, f1) =
                 (if \<not> Empty deltadelta then
                    (let (v, f') = (if \<not> incremental f
                                    then Evaluate delta (old_value f) False True f
                                    else Evaluate deltadelta (old_delta_value f) True True f)
                     in (v, f'\<lparr>incremental := True\<rparr>))
                  else
                    (let f' = (if incremental f
                               then f\<lparr>delta_cache :=
                                         map (\<lambda>i. cache f ! i) [0..<primary_vars_size f]
                                           @ drop (primary_vars_size f) (delta_cache f),
                                       old_delta_value := old_value f\<rparr>
                               else f);
                         f'' = f'\<lparr>incremental := False\<rparr>
                     in Evaluate delta (old_value f'') False False f''));
               f2 = f1\<lparr>old_delta_value := v\<rparr>;
               var_min0 = VarMin (objective f2);
               var_max0 = VarMax (objective f2);
               var_min = (if Objective delta = Some (objective f2)
                          then max var_min0 (ObjectiveMin delta) else var_min0);
               var_max = (if Objective delta = Some (objective f2)
                          then min var_max0 (ObjectiveMax delta) else var_max0)
           in (case filter_enum f2 of
                 Solver_LE \<Rightarrow> v \<le> var_max
               | Solver_GE \<Rightarrow> v \<ge> var_min
               | Solver_EQ \<Rightarrow> v \<le> var_max \<and> v \<ge> var_min,
               f2)))"

section \<open>CompoundOperator\<close>

text \<open>
  The compound operator holds its sub-operators behind the \<^verbatim>\<open>LocalSearchOperator\<close>
  interface; here the two virtual methods of the sub-operators are the parameters
  \<open>sub_Start\<close> and \<open>sub_MakeNextNeighbor\<close>, over any type \<open>'s\<close> of sub-operator states.
  A null entry of the constructor's vector is \<open>None\<close>.
\<close>

record 's compound_operator =
  co_index :: nat
  co_size :: nat
  operators :: "'s list"
  operator_indices :: "nat list"

definition CompoundOperator :: "'s option list \<Rightarrow> 's compound_operator" where
  "CompoundOperator ops =
     \<lparr>co_index = 0,
      co_size = length (filter (\<lambda>x. x \<noteq> None) ops),
      operators = map the (filter (\<lambda>x. x \<noteq> None) ops),
      operator_indices = [0..<length (filter (\<lambda>x. x \<noteq> None) ops)]\<rparr>"

definition CompoundOperatorNoRestart :: "int \<Rightarrow> int \<Rightarrow> int \<Rightarrow> int" where
  "CompoundOperatorNoRestart sz active_index operator_index =
     (if operator_index < active_index then sz + operator_index - active_index
      else operator_index - active_index)"

definition CompoundOperatorRestart :: "int \<Rightarrow> int \<Rightarrow> int" where
  "CompoundOperatorRestart active_index operator_index = 0"

definition OperatorComparator :: "(int \<Rightarrow> int \<Rightarrow> int) \<Rightarrow> nat \<Rightarrow> nat \<Rightarrow> nat \<Rightarrow> bool" where
  "OperatorComparator evaluator active_operator lhs rhs =
     (let lhs_value = evaluator (int active_operator) (int lhs);
          rhs_value = evaluator (int active_operator) (int rhs)
      in lhs_value < rhs_value \<or> (lhs_value = rhs_value \<and> lhs < rhs))"

text \<open>
  \<^verbatim>\<open>std::sort\<close> under the comparator. The comparator orders the pairs (evaluation, index)
  lexicographically, and the indices are distinct, so the sorted sequence is unique and
  an insertion sort computes it.
\<close>

fun insert_sorted :: "('a \<Rightarrow> 'a \<Rightarrow> bool) \<Rightarrow> 'a \<Rightarrow> 'a list \<Rightarrow> 'a list" where
  "insert_sorted comparator x [] = [x]"
| "insert_sorted comparator x (y # ys) =
     (if comparator y x then y # insert_sorted comparator x ys else x # y # ys)"

fun std_sort :: "('a \<Rightarrow> 'a \<Rightarrow> bool) \<Rightarrow> 'a list \<Rightarrow> 'a list" where
  "std_sort comparator [] = []"
| "std_sort comparator (x # xs) = insert_sorted comparator x (std_sort comparator xs)"

fun co_Start_loop :: "('s \<Rightarrow> container \<Rightarrow> error + 's) \<Rightarrow> container \<Rightarrow> 's list \<Rightarrow> error + 's list" where
  "co_Start_loop sub_Start a [] = Inr []"
| "co_Start_loop sub_Start a (s # rest) =
     (case sub_Start s a of
        Inl err \<Rightarrow> Inl err
      | Inr s' \<Rightarrow>
          (case co_Start_loop sub_Start a rest of
             Inl err \<Rightarrow> Inl err
           | Inr rest' \<Rightarrow> Inr (s' # rest')))"

definition co_Start ::
  "('s \<Rightarrow> container \<Rightarrow> error + 's) \<Rightarrow> (int \<Rightarrow> int \<Rightarrow> int) \<Rightarrow> 's compound_operator \<Rightarrow> container
     \<Rightarrow> error + 's compound_operator" where
  "co_Start sub_Start evaluator c a =
     (if 0 < co_size c then
        (case co_Start_loop sub_Start a (operators c) of
           Inl err \<Rightarrow> Inl err
         | Inr ops' \<Rightarrow>
             Inr (c\<lparr>operators := ops',
                    operator_indices :=
                      std_sort (OperatorComparator evaluator (operator_indices c ! co_index c))
                        (operator_indices c),
                    co_index := 0\<rparr>))
      else Inr c)"

text \<open>
  The \<^verbatim>\<open>do ... while (index != 0)\<close> loop of \<^verbatim>\<open>MakeNextNeighbor\<close>. Reading \<open>operator_indices\<close>
  or \<open>operators\<close> outside their bounds has no defined behaviour in the source; the model
  answers \<open>None\<close> there. The containers are passed on as the failing sub-operators left
  them.
\<close>

function co_MakeNextNeighbor_loop ::
  "('s \<Rightarrow> container \<times> container \<Rightarrow> bool \<times> 's \<times> container \<times> container)
     \<Rightarrow> 's compound_operator \<Rightarrow> container \<times> container
     \<Rightarrow> (bool \<times> 's compound_operator \<times> container \<times> container) option" where
  "co_MakeNextNeighbor_loop sub_MakeNextNeighbor c dd =
     (if \<not> co_index c < co_size c \<or> \<not> co_index c < length (operator_indices c)
         \<or> \<not> operator_indices c ! co_index c < length (operators c) then None
      else
        (let k = operator_indices c ! co_index c;
             (ok, s', dd') = sub_MakeNextNeighbor (operators c ! k) dd;
             c1 = c\<lparr>operators := (operators c)[k := s']\<rparr>
         in if ok then Some (True, c1, dd')
            else
              (let c2 = c1\<lparr>co_index := co_index c1 + 1\<rparr>;
                   c3 = (if co_index c2 = co_size c2 then c2\<lparr>co_index := 0\<rparr> else c2)
               in if co_index c3 \<noteq> 0 then co_MakeNextNeighbor_loop sub_MakeNextNeighbor c3 dd'
                  else Some (False, c3, dd'))))"
  by pat_completeness auto
termination
  by (relation "measure (\<lambda>(f, c, dd). co_size c - co_index c)") (auto split: if_splits)

declare co_MakeNextNeighbor_loop.simps [simp del]

definition co_MakeNextNeighbor ::
  "('s \<Rightarrow> container \<times> container \<Rightarrow> bool \<times> 's \<times> container \<times> container)
     \<Rightarrow> 's compound_operator \<Rightarrow> container \<times> container
     \<Rightarrow> (bool \<times> 's compound_operator \<times> container \<times> container) option" where
  "co_MakeNextNeighbor sub_MakeNextNeighbor c dd =
     (if 0 < co_size c then co_MakeNextNeighbor_loop sub_MakeNextNeighbor c dd
      else Some (False, c, dd))"

section \<open>FindOneNeighbor\<close>

text \<open>
  The driver talks to the solution pool, the search limit, the operator, the
  meta-heuristic hook, the local filters and the nested solve. What they answer in one
  round of the loop is an \<open>event\<close>; the driver itself owns the solver's three counters,
  the flag \<open>neighbor_found\<close> and the local \<open>counter\<close> of the periodic check. Each filter
  is given by its \<^verbatim>\<open>IsIncremental\<close> flag and its answer to \<^verbatim>\<open>Accept\<close>. The counters are
  64-bit in the source and unbounded here.
\<close>

record event =
  SyncNeeded :: bool
  limit_Check :: bool
  op_MakeNextNeighbor :: bool
  AcceptDelta :: bool
  filters :: "(bool \<times> bool) list"
  SolveAndCommit :: bool

record driver =
  neighbors :: int
  filtered_neighbors :: int
  accepted_neighbors :: int
  neighbor_found :: bool
  counter :: int

datatype control = Continue | ReturnNeighbor | Break

fun FilterAccept :: "(bool \<times> bool) list \<Rightarrow> bool \<Rightarrow> bool" where
  "FilterAccept [] ok = ok"
| "FilterAccept ((IsIncremental, accept) # rest) ok =
     (if IsIncremental then FilterAccept rest (accept \<and> ok)
      else FilterAccept rest (ok \<and> accept))"

definition SynchronizeAll :: "driver \<Rightarrow> driver" where
  "SynchronizeAll d = d\<lparr>neighbor_found := False\<rparr>"

text \<open>One round of the \<^verbatim>\<open>while (true)\<close> loop of \<^verbatim>\<open>FindOneNeighbor::Next\<close>.\<close>

definition iteration :: "int \<Rightarrow> event \<Rightarrow> driver \<Rightarrow> control \<times> driver" where
  "iteration sync_frequency e d =
     (let d1 = d\<lparr>counter := counter d + 1\<rparr>;
          d2 = (if counter d1 \<ge> sync_frequency \<and> SyncNeeded e
                then SynchronizeAll (d1\<lparr>counter := 0\<rparr>) else d1)
      in if \<not> limit_Check e \<and> op_MakeNextNeighbor e then
           (let d3 = d2\<lparr>neighbors := neighbors d2 + 1\<rparr>;
                mh_filter = AcceptDelta e;
                move_filter = FilterAccept (filters e) True
            in if mh_filter \<and> move_filter then
                 (let d4 = d3\<lparr>filtered_neighbors := filtered_neighbors d3 + 1\<rparr>
                  in if SolveAndCommit e
                     then (ReturnNeighbor,
                           d4\<lparr>accepted_neighbors := accepted_neighbors d4 + 1,
                              neighbor_found := True\<rparr>)
                     else (Continue, d4))
               else (Continue, d3))
         else if neighbor_found d2 then (Continue, SynchronizeAll d2)
         else (Break, d2))"

text \<open>
  The loop over the rounds the environment answers; when the answers run out the loop
  is still running and the state reached so far is returned with \<open>Continue\<close>.
\<close>

fun Next_loop :: "int \<Rightarrow> event list \<Rightarrow> driver \<Rightarrow> control \<times> driver" where
  "Next_loop sync_frequency [] d = (Continue, d)"
| "Next_loop sync_frequency (e # es) d =
     (case iteration sync_frequency e d of
        (Continue, d') \<Rightarrow> Next_loop sync_frequency es d'
      | (ReturnNeighbor, d') \<Rightarrow> (ReturnNeighbor, d')
      | (Break, d') \<Rightarrow> (Break, d'))"

definition FindOneNeighbor_Next :: "int \<Rightarrow> event list \<Rightarrow> driver \<Rightarrow> control \<times> driver" where
  "FindOneNeighbor_Next sync_frequency es d =
     (let d0 = (if \<not> neighbor_found d then SynchronizeAll d else d)
      in Next_loop sync_frequency es (d0\<lparr>counter := 0\<rparr>))"

section \<open>Specification-side definitions and scenario inputs\<close>

subsection \<open>The contract of ApplyChanges, in the words of the specification\<close>

definition claimed_element :: "'a op_state_scheme \<Rightarrow> nat \<Rightarrow> element" where
  "claimed_element st i =
     (if \<not> activated st ! i then elem_Deactivate (new_element (Var st i))
      else elem_SetValue (Value st i) (new_element (Var st i)))"

definition claimed_in_delta :: "(nat \<Rightarrow> bool) \<Rightarrow> 'a op_state_scheme \<Rightarrow> nat \<Rightarrow> bool" where
  "claimed_in_delta SkipUnchanged st i =
     (\<not> activated st ! i \<or> Value st i \<noteq> OldValue st i \<or> \<not> SkipUnchanged i)"

definition claimed_in_deltadelta :: "bool \<Rightarrow> 'a op_state_scheme \<Rightarrow> nat \<Rightarrow> bool" where
  "claimed_in_deltadelta IsIncremental st i =
     (IsIncremental \<and> \<not> cleared st \<and> has_delta_changed st ! i)"

definition ex_vars :: "IntVar list" where
  "ex_vars = [IntVar 0 0 9, IntVar 1 0 9, IntVar 2 0 9, IntVar 3 0 9]"

definition ex_staged :: op_state where
  "ex_staged =
     \<lparr>vars = ex_vars,
      values' = [5, 7, 2, 4],
      old_values = [5, 1, 2, 3],
      activated = [False, True, True, True],
      was_activated = [True, True, True, True],
      has_changed = [True, True, True, True],
      has_delta_changed = [True, False, True, True],
      changes = [3, 0, 2, 1],
      cleared = False\<rparr>"

subsection \<open>MoveTowardTargetLS on four variables\<close>

definition mtt_vars :: "IntVar list" where
  "mtt_vars = [IntVar 0 0 1, IntVar 1 0 1, IntVar 2 0 1, IntVar 3 0 1]"

definition mtt_reference :: container where
  "mtt_reference = map (\<lambda>v. \<lparr>elem_Var = v, elem_Value = 0, elem_Activated = True\<rparr>) mtt_vars"

definition mtt_started :: "error + mtt_state" where
  "mtt_started =
     (case MoveTowardTargetLS mtt_vars [1, 0, 1, 0] of
        Inl err \<Rightarrow> Inl err
      | Inr s \<Rightarrow> Start MTT_OnStart s mtt_reference)"

definition mtt_s0 :: mtt_state where
  "mtt_s0 =
     \<lparr>vars = mtt_vars, values' = [0, 0, 0, 0], old_values = [0, 0, 0, 0],
      activated = [True, True, True, True], was_activated = [True, True, True, True],
      has_changed = [False, False, False, False],
      has_delta_changed = [False, False, False, False], changes = [],
      cleared = True, target = [1, 0, 1, 0], variable_index = 3,
      num_var_since_last_start = 0\<rparr>"

definition mtt_s1 :: mtt_state where
  "mtt_s1 =
     \<lparr>vars = mtt_vars, values' = [1, 0, 0, 0], old_values = [0, 0, 0, 0],
      activated = [True, True, True, True], was_activated = [True, True, True, True],
      has_changed = [True, False, False, False],
      has_delta_changed = [True, False, False, False], changes = [0],
      cleared = True, target = [1, 0, 1, 0], variable_index = 0,
      num_var_since_last_start = 1\<rparr>"

definition mtt_s2 :: mtt_state where
  "mtt_s2 =
     \<lparr>vars = mtt_vars, values' = [0, 0, 1, 0], old_values = [0, 0, 0, 0],
      activated = [True, True, True, True], was_activated = [True, True, True, True],
      has_changed = [False, False, True, False],
      has_delta_changed = [False, False, True, False], changes = [2],
      cleared = True, target = [1, 0, 1, 0], variable_index = 2,
      num_var_since_last_start = 3\<rparr>"

definition mtt_s3 :: mtt_state where
  "mtt_s3 =
     \<lparr>vars = mtt_vars, values' = [0, 0, 0, 0], old_values = [0, 0, 0, 0],
      activated = [True, True, True, True], was_activated = [True, True, True, True],
      has_changed = [False, False, False, False],
      has_delta_changed = [False, False, False, False], changes = [],
      cleared = True, target = [1, 0, 1, 0], variable_index = 3,
      num_var_since_last_start = 4\<rparr>"

subsection \<open>Start on assignments whose slots do not line up\<close>

definition c4_vars :: "IntVar list" where
  "c4_vars = [IntVar 0 0 9, IntVar 1 0 9]"

text \<open>Both variables present, in the other order.\<close>

definition c4_swapped :: container where
  "c4_swapped =
     [\<lparr>elem_Var = IntVar 1 0 9, elem_Value = 7, elem_Activated = True\<rparr>,
      \<lparr>elem_Var = IntVar 0 0 9, elem_Value = 3, elem_Activated = True\<rparr>]"

text \<open>The second variable of the operator is absent.\<close>

definition c4_missing :: container where
  "c4_missing =
     [\<lparr>elem_Var = IntVar 0 0 9, elem_Value = 3, elem_Activated = True\<rparr>,
      \<lparr>elem_Var = IntVar 5 0 9, elem_Value = 7, elem_Activated = True\<rparr>]"

subsection \<open>The objective filter on four bound variables\<close>

definition of_vars :: "IntVar list" where
  "of_vars = [IntVar 0 10 10, IntVar 1 20 20, IntVar 2 30 30, IntVar 3 40 40]"

definition of_objective :: IntVar where
  "of_objective = IntVar 4 0 100"

definition of_reference :: assignment where
  "of_reference =
     \<lparr>IntVarContainer =
        map (\<lambda>v. \<lparr>elem_Var = v, elem_Value = VarMin v, elem_Activated = True\<rparr>) of_vars,
      Objective = None, ObjectiveMin = 0, ObjectiveMax = 0\<rparr>"

definition of_filter :: objective_filter where
  "of_filter =
     Synchronize (BinaryObjectiveFilter of_vars (\<lambda>i v. v) of_objective Solver_LE (OperationFromEnum Solver_SUM))
       of_reference"

text \<open>A delta with the single element \<open>var2 := v\<close>, and the empty delta of delta.\<close>

definition of_delta :: "int \<Rightarrow> assignment" where
  "of_delta v =
     \<lparr>IntVarContainer = [elem_SetValue v (new_element (IntVar 2 30 30))],
      Objective = None, ObjectiveMin = 0, ObjectiveMax = 0\<rparr>"

definition of_empty :: assignment where
  "of_empty = \<lparr>IntVarContainer = [], Objective = None, ObjectiveMin = 0, ObjectiveMax = 0\<rparr>"

subsection \<open>A MAX objective filter on contributions with a duplicate\<close>

definition mm_vars :: "IntVar list" where
  "mm_vars = [IntVar 0 0 9, IntVar 1 0 9, IntVar 2 0 9]"

definition mm_reference :: assignment where
  "mm_reference =
     \<lparr>IntVarContainer =
        [\<lparr>elem_Var = IntVar 0 0 9, elem_Value = 5, elem_Activated = True\<rparr>,
         \<lparr>elem_Var = IntVar 1 0 9, elem_Value = 5, elem_Activated = True\<rparr>,
         \<lparr>elem_Var = IntVar 2 0 9, elem_Value = 3, elem_Activated = True\<rparr>],
      Objective = None, ObjectiveMin = 0, ObjectiveMax = 0\<rparr>"

definition mm_filter :: objective_filter where
  "mm_filter =
     Synchronize
       (BinaryObjectiveFilter mm_vars (\<lambda>i v. v) (IntVar 3 4 9) Solver_GE
          (OperationFromEnum Solver_MAX))
       mm_reference"

definition mm_delta :: assignment where
  "mm_delta =
     \<lparr>IntVarContainer = [elem_SetValue 1 (new_element (IntVar 0 0 9))],
      Objective = None, ObjectiveMin = 0, ObjectiveMax = 0\<rparr>"

subsection \<open>A compound operator over three MoveTowardTargetLS operators\<close>

text \<open>
  The sub-operators A, B and C share the four variables and the reference \<open>[0,0,0,0]\<close>.
  Their targets make A produce one candidate per episode (\<open>var0 := 1\<close>), B two
  (\<open>var1 := 2\<close>, then \<open>var2 := 2\<close>) and C one (\<open>var3 := 3\<close>).
\<close>

definition co_sub :: "int list \<Rightarrow> int list \<Rightarrow> bool list \<Rightarrow> nat list \<Rightarrow> int \<Rightarrow> mtt_state" where
  "co_sub t staged marks chs n =
     \<lparr>vars = mtt_vars, values' = staged, old_values = [0, 0, 0, 0],
      activated = [True, True, True, True], was_activated = [True, True, True, True],
      has_changed = marks, has_delta_changed = marks, changes = chs,
      cleared = True, target = t, variable_index = 3,
      num_var_since_last_start = n\<rparr>"

abbreviation co_A :: "int \<Rightarrow> mtt_state" where
  "co_A n \<equiv> co_sub [1, 0, 0, 0] [0, 0, 0, 0] [False, False, False, False] [] n"

abbreviation co_B :: "int \<Rightarrow> mtt_state" where
  "co_B n \<equiv> co_sub [0, 2, 2, 0] [0, 0, 0, 0] [False, False, False, False] [] n"

abbreviation co_C :: "int \<Rightarrow> mtt_state" where
  "co_C n \<equiv> co_sub [0, 0, 0, 3] [0, 0, 0, 0] [False, False, False, False] [] n"

text \<open>C with its candidate \<open>var3 := 3\<close> staged.\<close>

abbreviation co_C_staged :: "int list \<Rightarrow> int \<Rightarrow> mtt_state" where
  "co_C_staged staged n \<equiv> co_sub [0, 0, 0, 3] staged [False, False, False, True] [3] n"

definition co_new :: "(error + mtt_state compound_operator)" where
  "co_new =
     (case (MoveTowardTargetLS mtt_vars [1, 0, 0, 0], MoveTowardTargetLS mtt_vars [0, 2, 2, 0],
            MoveTowardTargetLS mtt_vars [0, 0, 0, 3]) of
        (Inr a, Inr b, Inr c) \<Rightarrow> Inr (CompoundOperator [Some a, Some b, Some c])
      | _ \<Rightarrow> Inl CheckFailed)"

definition co_restart :: "mtt_state compound_operator \<Rightarrow> error + mtt_state compound_operator" where
  "co_restart c = co_Start (Start MTT_OnStart) (CompoundOperatorNoRestart 3) c mtt_reference"

text \<open>\<open>n\<close> successive calls of \<^verbatim>\<open>MakeNextNeighbor\<close>, each on cleared containers.\<close>

fun co_calls ::
  "nat \<Rightarrow> mtt_state compound_operator
     \<Rightarrow> ((bool \<times> container) list \<times> mtt_state compound_operator) option" where
  "co_calls 0 c = Some ([], c)"
| "co_calls (Suc n) c =
     (case co_MakeNextNeighbor (MakeNextNeighbor False SkipUnchanged_default MTT_MakeOneNeighbor)
             c ([], []) of
        None \<Rightarrow> None
      | Some (ok, c', delta, deltadelta) \<Rightarrow>
          (case co_calls n c' of
             None \<Rightarrow> None
           | Some (rs, c'') \<Rightarrow> Some ((ok, delta) # rs, c'')))"

text \<open>The candidates, named as in the specification.\<close>

definition cand_A1 :: container where "cand_A1 = [elem_SetValue 1 (new_element (IntVar 0 0 1))]"
definition cand_B1 :: container where "cand_B1 = [elem_SetValue 2 (new_element (IntVar 1 0 1))]"
definition cand_B2 :: container where "cand_B2 = [elem_SetValue 2 (new_element (IntVar 2 0 1))]"
definition cand_C1 :: container where "cand_C1 = [elem_SetValue 3 (new_element (IntVar 3 0 1))]"

text \<open>
  The compound operator after the first \<^verbatim>\<open>Start\<close> (\<open>co_c1\<close>), after the four successful
  calls (\<open>co_c5\<close>), after the fifth, exhausting call (\<open>co_c6\<close>), and after a \<^verbatim>\<open>Start\<close> made
  from \<open>co_c5\<close> (\<open>co_r5\<close>).
\<close>

definition co_c0 :: "mtt_state compound_operator" where
  "co_c0 =
     \<lparr>co_index = 0, co_size = 3,
      operators =
        [(co_A 0)\<lparr>activated := [False, False, False, False],
                  was_activated := [False, False, False, False]\<rparr>,
         (co_B 0)\<lparr>activated := [False, False, False, False],
                  was_activated := [False, False, False, False]\<rparr>,
         (co_C 0)\<lparr>activated := [False, False, False, False],
                  was_activated := [False, False, False, False]\<rparr>],
      operator_indices = [0, 1, 2]\<rparr>"

definition co_c1 :: "mtt_state compound_operator" where
  "co_c1 =
     \<lparr>co_index = 0, co_size = 3, operators = [co_A 0, co_B 0, co_C 0],
      operator_indices = [0, 1, 2]\<rparr>"

definition co_c5 :: "mtt_state compound_operator" where
  "co_c5 =
     \<lparr>co_index = 2, co_size = 3,
      operators = [co_A 4, co_B 4, co_C_staged [0, 0, 0, 3] 4],
      operator_indices = [0, 1, 2]\<rparr>"

definition co_c6 :: "mtt_state compound_operator" where
  "co_c6 =
     \<lparr>co_index = 0, co_size = 3, operators = [co_A 4, co_B 4, co_C 4],
      operator_indices = [0, 1, 2]\<rparr>"

definition co_r5 :: "mtt_state compound_operator" where
  "co_r5 =
     \<lparr>co_index = 0, co_size = 3,
      operators = [co_A 0, co_B 0, co_C_staged [0, 0, 0, 0] 0],
      operator_indices = [2, 0, 1]\<rparr>"

subsection \<open>Three rounds of the driver\<close>

text \<open>
  A candidate rejected by a local filter, a candidate the nested solve refuses, and a
  candidate that is committed.
\<close>

definition drv_events :: "event list" where
  "drv_events =
     [\<lparr>SyncNeeded = False, limit_Check = False, op_MakeNextNeighbor = True,
       AcceptDelta = True, filters = [(True, True), (False, False)], SolveAndCommit = True\<rparr>,
      \<lparr>SyncNeeded = False, limit_Check = False, op_MakeNextNeighbor = True,
       AcceptDelta = True, filters = [(True, True), (False, True)], SolveAndCommit = False\<rparr>,
      \<lparr>SyncNeeded = False, limit_Check = False, op_MakeNextNeighbor = True,
       AcceptDelta = True, filters = [(True, True), (False, True)], SolveAndCommit = True\<rparr>]"

definition drv_initial :: driver where
  "drv_initial =
     \<lparr>neighbors = 0, filtered_neighbors = 0, accepted_neighbors = 0,
      neighbor_found = False, counter = 0\<rparr>"

subsection \<open>The counters of the driver, in the words of the claim\<close>

text \<open>
  A round produces a candidate when the limit is not hit and the operator returns true;
  the candidate passes the filters when the meta-heuristic hook and every local filter
  accept it; it is committed when, moreover, the nested solve succeeds.
\<close>

definition produced :: "event \<Rightarrow> bool" where
  "produced e = (\<not> limit_Check e \<and> op_MakeNextNeighbor e)"

definition passed_filters :: "event \<Rightarrow> bool" where
  "passed_filters e = (produced e \<and> AcceptDelta e \<and> list_all snd (filters e))"

definition committed :: "event \<Rightarrow> bool" where
  "committed e = (passed_filters e \<and> SolveAndCommit e)"

definition counters_ordered :: "driver \<Rightarrow> bool" where
  "counters_ordered d =
     (accepted_neighbors d \<le> filtered_neighbors d \<and> filtered_neighbors d \<le> neighbors d)"

subsection \<open>Chains, in the words of the claim\<close>

text \<open>The node reached from \<open>before_chain\<close> after \<open>k\<close> steps along \<open>Next\<close>.\<close>

definition walk :: "'a path_state_scheme \<Rightarrow> int \<Rightarrow> nat \<Rightarrow> int" where
  "walk st before_chain k = (Next st ^^ k) before_chain"

text \<open>
  The next values and the node the walk starts from are node identifiers: not negative.
\<close>

definition nodes_ok :: "'a path_state_scheme \<Rightarrow> int \<Rightarrow> bool" where
  "nodes_ok st before_chain =
     (0 \<le> before_chain \<and> (\<forall>i < number_of_nexts st. 0 \<le> Value st i))"

text \<open>
  The chain is accepted as the claim words it: it is not empty, \<open>before_chain\<close> is not
  \<open>exclude\<close>, and the walk arrives at \<open>chain_end\<close> after \<open>k\<close> steps, \<open>1 \<le> k \<le> n_next\<close>, with
  no path end on the way and without reaching \<open>exclude\<close> before \<open>chain_end\<close>.
\<close>

definition claimed_valid :: "'a path_state_scheme \<Rightarrow> int \<Rightarrow> int \<Rightarrow> int \<Rightarrow> bool" where
  "claimed_valid st before_chain chain_end exclude =
     (before_chain \<noteq> chain_end \<and> before_chain \<noteq> exclude \<and>
      (\<exists>k \<in> {1..number_of_nexts st}.
          walk st before_chain k = chain_end \<and>
          (\<forall>j \<in> {0..<k}. walk st before_chain j \<noteq> chain_end
                           \<and> \<not> IsPathEnd st (walk st before_chain j)) \<and>
          (\<forall>j \<in> {1..<k}. walk st before_chain j \<noteq> exclude)))"

text \<open>
  The same, with \<open>exclude\<close> kept off the whole chain: the nodes after \<open>before_chain\<close> up to
  and including \<open>chain_end\<close>.
\<close>

definition chain_valid :: "'a path_state_scheme \<Rightarrow> int \<Rightarrow> int \<Rightarrow> int \<Rightarrow> bool" where
  "chain_valid st before_chain chain_end exclude =
     (before_chain \<noteq> chain_end \<and> before_chain \<noteq> exclude \<and>
      (\<exists>k \<in> {1..number_of_nexts st}.
          walk st before_chain k = chain_end \<and>
          (\<forall>j \<in> {0..<k}. walk st before_chain j \<noteq> chain_end
                           \<and> \<not> IsPathEnd st (walk st before_chain j)) \<and>
          (\<forall>j \<in> {1..k}. walk st before_chain j \<noteq> exclude)))"

text \<open>Three nodes on one route, \<open>0 \<rightarrow> 1 \<rightarrow> 2 \<rightarrow> 3\<close>, the node 3 being the path end.\<close>

definition ccv_state :: path_state where
  "ccv_state =
     \<lparr>vars = [IntVar 0 0 3, IntVar 1 0 3, IntVar 2 0 3],
      values' = [1, 2, 3], old_values = [1, 2, 3],
      activated = [True, True, True], was_activated = [True, True, True],
      has_changed = [False, False, False], has_delta_changed = [False, False, False],
      changes = [], cleared = True,
      number_of_nexts = 3, ignore_path_vars = True,
      base_nodes = [0, 0], end_nodes = [0, 0], base_paths = [0, 0], path_starts = [0],
      inactives = [False, False, False], just_started = True, first_start = False\<rparr>"

subsection \<open>The reference state and the invariant of the operator arrays\<close>

text \<open>
  All arrays have one slot per variable; \<open>changes\<close> lists indices of the operator, each
  once, and these are the indices marked in \<open>has_changed\<close>; an index outside \<open>changes\<close>
  holds its reference value and activation. The constructor establishes this, and
  \<^verbatim>\<open>Start\<close>, \<^verbatim>\<open>SetValue\<close>, \<^verbatim>\<open>Activate\<close>, \<^verbatim>\<open>Deactivate\<close> and \<^verbatim>\<open>RevertChanges\<close> keep it. The
  operator is in the reference state when \<open>changes\<close> is empty and every index holds its
  reference value and activation.
\<close>

definition sized :: "'a op_state_scheme \<Rightarrow> bool" where
  "sized st =
     (length (values' st) = Size st \<and> length (old_values st) = Size st \<and>
      length (activated st) = Size st \<and> length (was_activated st) = Size st \<and>
      length (has_changed st) = Size st \<and> length (has_delta_changed st) = Size st)"

definition tracked :: "'a op_state_scheme \<Rightarrow> bool" where
  "tracked st =
     (distinct (changes st) \<and>
      (\<forall>i \<in> set (changes st). i < Size st) \<and>
      (\<forall>i < Size st.
         (has_changed st ! i \<longleftrightarrow> i \<in> set (changes st)) \<and>
         (i \<notin> set (changes st) \<longrightarrow>
            values' st ! i = old_values st ! i \<and> activated st ! i = was_activated st ! i)))"

definition op_inv :: "'a op_state_scheme \<Rightarrow> bool" where
  "op_inv st = (sized st \<and> tracked st)"






subsection \<open>IncrementValue on two variables\<close>

definition iv_vars :: "IntVar list" where
  "iv_vars = [IntVar 0 0 9, IntVar 1 0 9]"

definition iv_reference :: container where
  "iv_reference =
     [\<lparr>elem_Var = IntVar 0 0 9, elem_Value = 5, elem_Activated = True\<rparr>,
      \<lparr>elem_Var = IntVar 1 0 9, elem_Value = 8, elem_Activated = True\<rparr>]"

definition IncrementValue_MakeOneNeighbor :: "change_value \<Rightarrow> (bool \<times> change_value) option" where
  "IncrementValue_MakeOneNeighbor st =
     Some (ChangeValue_MakeOneNeighbor IncrementValue_ModifyValue st)"

text \<open>
  The operator after \<^verbatim>\<open>Start\<close> (\<open>iv_s0\<close>), after its first successful call (\<open>iv_s1\<close>), after
  its second one, the second candidate staged (\<open>iv_s2\<close>), and after the call that finds
  the neighborhood exhausted (\<open>iv_s3\<close>).
\<close>

definition iv_s0 :: change_value where
  "iv_s0 =
     \<lparr>vars = iv_vars, values' = [5, 8], old_values = [5, 8],
      activated = [True, True], was_activated = [True, True],
      has_changed = [False, False], has_delta_changed = [False, False],
      changes = [], cleared = True, cv_index = 0\<rparr>"

definition iv_s1 :: change_value where
  "iv_s1 =
     \<lparr>vars = iv_vars, values' = [6, 8], old_values = [5, 8],
      activated = [True, True], was_activated = [True, True],
      has_changed = [True, False], has_delta_changed = [True, False],
      changes = [0], cleared = True, cv_index = 1\<rparr>"



subsection \<open>TwoOpt on one route of five nodes, over two episodes\<close>

definition tw_vars :: "IntVar list" where
  "tw_vars = map (\<lambda>i. IntVar i 0 5) [0..<5]"

text \<open>The assignment that gives the variables the values \<open>vs\<close>, in order.\<close>

definition tw_assignment :: "int list \<Rightarrow> container" where
  "tw_assignment vs =
     map (\<lambda>i. \<lparr>elem_Var = IntVar i 0 5, elem_Value = vs ! i, elem_Activated = True\<rparr>) [0..<5]"

text \<open>\<open>k\<close> successive calls of \<^verbatim>\<open>MakeNextNeighbor\<close>, each on cleared containers.\<close>

fun tw_calls ::
  "nat \<Rightarrow> two_opt \<Rightarrow> ((bool \<times> container \<times> container) list \<times> two_opt) option" where
  "tw_calls 0 st = Some ([], st)"
| "tw_calls (Suc k) st =
     (case TwoOpt_MakeNextNeighbor st ([], []) of
        None \<Rightarrow> None
      | Some (ok, st', delta, deltadelta) \<Rightarrow>
          (case tw_calls k st' of
             None \<Rightarrow> None
           | Some (rs, st'') \<Rightarrow> Some ((ok, delta, deltadelta) # rs, st'')))"

text \<open>
  First episode: the operator is started on the route \<open>0 \<rightarrow> 1 \<rightarrow> 2 \<rightarrow> 3 \<rightarrow> 4 \<rightarrow> 5\<close> (5 is the
  path end); \<open>tw_s2\<close> is the operator after two calls, \<open>tw_third\<close> the result of the third
  call and \<open>tw_s3\<close> the operator after it, with the candidate \<open>0 \<rightarrow> 3 \<rightarrow> 2 \<rightarrow> 1 \<rightarrow> 4 \<rightarrow> 5\<close> staged.
  Second episode: the candidate is committed and the operator started on it (\<open>tw_t0\<close>);
  \<open>tw_first\<close> is the result of the first call, \<open>tw_t10\<close> the operator after ten calls and
  \<open>tw_t11\<close> the operator after the eleventh.
\<close>

definition tw_s0 :: two_opt where
  "tw_s0 =
     (case TwoOpt_Start (TwoOpt tw_vars None) (tw_assignment [1, 2, 3, 4, 5]) of
        Some (Inr s) \<Rightarrow> s
      | _ \<Rightarrow> TwoOpt tw_vars None)"

definition tw_s2 :: two_opt where
  "tw_s2 = (case tw_calls 2 tw_s0 of Some (rs, s) \<Rightarrow> s | None \<Rightarrow> tw_s0)"

definition tw_third :: "(bool \<times> two_opt \<times> container \<times> container) option" where
  "tw_third = TwoOpt_MakeNextNeighbor tw_s2 ([], [])"

definition tw_s3 :: two_opt where
  "tw_s3 = (case tw_third of Some (ok, s, delta, deltadelta) \<Rightarrow> s | None \<Rightarrow> tw_s2)"

definition tw_t0 :: two_opt where
  "tw_t0 =
     (case TwoOpt_Start tw_s3 (tw_assignment (values' tw_s3)) of
        Some (Inr s) \<Rightarrow> s
      | _ \<Rightarrow> tw_s3)"

definition tw_first :: "(bool \<times> two_opt \<times> container \<times> container) option" where
  "tw_first = TwoOpt_MakeNextNeighbor tw_t0 ([], [])"

definition tw_t1 :: two_opt where
  "tw_t1 = (case tw_first of Some (ok, s, delta, deltadelta) \<Rightarrow> s | None \<Rightarrow> tw_t0)"



text \<open>A delta element, written \<open>var(i) := v\<close>.\<close>

definition tw_set :: "nat \<Rightarrow> int \<Rightarrow> element" where
  "tw_set i v = elem_SetValue v (new_element (IntVar i 0 5))"

subsection \<open>Cross on two routes, over two episodes\<close>









section \<open>Theorems\<close>

subsection \<open>ApplyChanges\<close>

lemma ApplyChanges_loop_eq:
  "ApplyChanges_loop inc skip st idxs (delta, dd) =
     (delta @ map (claimed_element st) (filter (claimed_in_delta skip st) idxs),
      dd @ map (claimed_element st)
             (filter (\<lambda>i. claimed_in_delta skip st i \<and> claimed_in_deltadelta inc st i) idxs))"
  by (induction idxs arbitrary: delta dd)
     (auto simp: claimed_element_def claimed_in_delta_def claimed_in_deltadelta_def Let_def)

text \<open>
  C1. In every operator state (so in every state reached after a successful
  \<^verbatim>\<open>MakeOneNeighbor\<close>), \<^verbatim>\<open>ApplyChanges\<close> appends to \<open>delta\<close>, for the indices of \<open>changes\<close>
  in order, a deactivated element for \<open>var[i]\<close> when \<open>activated[i]\<close> is false and otherwise
  an element setting \<open>var[i]\<close> to \<open>value[i]\<close> when the value differs from \<open>old_value[i]\<close> or
  \<open>SkipUnchanged(i)\<close> is false; the same element goes to \<open>deltadelta\<close> exactly when the
  operator is incremental, \<open>cleared\<close> is false and \<open>has_delta_changed[i]\<close> is true; nothing
  else is added to either container.
\<close>

theorem ApplyChanges_emits:
  "ApplyChanges inc skip st (delta, dd) =
     (delta @ map (claimed_element st) (filter (claimed_in_delta skip st) (changes st)),
      dd @ map (claimed_element st)
             (filter (\<lambda>i. claimed_in_delta skip st i \<and> claimed_in_deltadelta inc st i)
                (changes st)))"
  unfolding ApplyChanges_def by (rule ApplyChanges_loop_eq)

theorem ApplyChanges_emits_witness:
  "ApplyChanges True (\<lambda>i. True) ex_staged ([], []) =
     ([elem_SetValue 4 (new_element (IntVar 3 0 9)),
       elem_Deactivate (new_element (IntVar 0 0 9)),
       elem_SetValue 7 (new_element (IntVar 1 0 9))],
      [elem_SetValue 4 (new_element (IntVar 3 0 9)),
       elem_Deactivate (new_element (IntVar 0 0 9))])"
  using ApplyChanges_emits [of True "\<lambda>i. True" ex_staged "[]" "[]"]
  by (simp add: claimed_element_def claimed_in_delta_def claimed_in_deltadelta_def
      ex_staged_def ex_vars_def Var_def Value_def OldValue_def)

subsection \<open>RevertChanges and MakeNextNeighbor\<close>






lemma op_inv_constructor: "op_inv (IntVarLocalSearchOperator vs)"
  by (simp add: op_inv_def sized_def tracked_def Size_def IntVarLocalSearchOperator_def)

lemma MarkChange_fields:
  "vars (MarkChange index st) = vars st \<and> values' (MarkChange index st) = values' st \<and>
   old_values (MarkChange index st) = old_values st \<and>
   activated (MarkChange index st) = activated st \<and>
   was_activated (MarkChange index st) = was_activated st \<and>
   cleared (MarkChange index st) = cleared st \<and>
   length (has_changed (MarkChange index st)) = length (has_changed st) \<and>
   length (has_delta_changed (MarkChange index st)) = length (has_delta_changed st) \<and>
   set (changes (MarkChange index st)) \<subseteq> insert index (set (changes st)) \<and>
   set (changes st) \<subseteq> set (changes (MarkChange index st))"
  by (auto simp: MarkChange_def Let_def)

lemma op_inv_MarkChange:
  assumes sz: "sized st" and idx: "index < Size st"
    and dist: "distinct (changes st)"
    and bound: "\<forall>i \<in> set (changes st). i < Size st"
    and hc: "\<forall>i < Size st. has_changed st ! i \<longleftrightarrow> i \<in> set (changes st)"
    and other: "\<forall>i < Size st. i \<noteq> index \<longrightarrow> i \<notin> set (changes st) \<longrightarrow>
                   values' st ! i = old_values st ! i \<and> activated st ! i = was_activated st ! i"
  shows "op_inv (MarkChange index st)"
proof -
  have len: "length (has_changed st) = Size st" using sz by (simp add: sized_def)
  have f: "vars (MarkChange index st) = vars st" "values' (MarkChange index st) = values' st"
      "old_values (MarkChange index st) = old_values st"
      "activated (MarkChange index st) = activated st"
      "was_activated (MarkChange index st) = was_activated st"
      "length (has_changed (MarkChange index st)) = length (has_changed st)"
      "length (has_delta_changed (MarkChange index st)) = length (has_delta_changed st)"
    using MarkChange_fields [of index st] by simp_all
  have ch: "changes (MarkChange index st) =
              (if has_changed st ! index then changes st else changes st @ [index])"
    and hch: "has_changed (MarkChange index st) =
              (if has_changed st ! index then has_changed st else (has_changed st)[index := True])"
    by (simp_all add: MarkChange_def Let_def)
  have fresh: "\<not> has_changed st ! index \<Longrightarrow> index \<notin> set (changes st)"
    using hc idx by simp
  have m: "index \<in> set (changes (MarkChange index st))"
    using ch hc idx by simp
  have "sized (MarkChange index st)" using sz f by (simp add: sized_def Size_def)
  moreover have "tracked (MarkChange index st)"
    unfolding tracked_def
  proof (intro conjI allI impI ballI)
    show "distinct (changes (MarkChange index st))" using ch dist fresh by simp
  next
    fix i assume "i \<in> set (changes (MarkChange index st))"
    then show "i < Size (MarkChange index st)"
      using ch bound idx f(1) by (auto simp: Size_def split: if_splits)
  next
    fix i assume "i < Size (MarkChange index st)"
    then have i: "i < Size st" using f by (simp add: Size_def)
    show "has_changed (MarkChange index st) ! i \<longleftrightarrow> i \<in> set (changes (MarkChange index st))"
      using ch hch hc i idx len by (auto simp: nth_list_update)
  next
    fix i assume "i < Size (MarkChange index st)"
      and out: "i \<notin> set (changes (MarkChange index st))"
    then have i: "i < Size st" using f by (simp add: Size_def)
    have "i \<noteq> index" using out m by auto
    moreover have "i \<notin> set (changes st)" using out ch by (auto split: if_splits)
    ultimately show "values' (MarkChange index st) ! i = old_values (MarkChange index st) ! i"
      and "activated (MarkChange index st) ! i = was_activated (MarkChange index st) ! i"
      using other i f by simp_all
  qed
  ultimately show ?thesis by (simp add: op_inv_def)
qed


lemma op_inv_Activate:
  assumes "op_inv st" and "index < Size st"
  shows "op_inv (Activate index st)"
  unfolding Activate_def
  using assms
  by (intro op_inv_MarkChange)
     (auto simp: op_inv_def sized_def tracked_def Size_def nth_list_update)

lemma op_inv_Deactivate:
  assumes "op_inv st" and "index < Size st"
  shows "op_inv (Deactivate index st)"
  unfolding Deactivate_def
  using assms
  by (intro op_inv_MarkChange)
     (auto simp: op_inv_def sized_def tracked_def Size_def nth_list_update)


lemma Start_step_effect:
  assumes "Start_step c i st = Inr st'" and "sized st" and "i < Size st"
  shows "sized st' \<and> vars st' = vars st \<and> changes st' = changes st \<and>
         has_changed st' = has_changed st \<and>
         values' st' ! i = old_values st' ! i \<and> activated st' ! i = was_activated st' ! i \<and>
         (\<forall>j. j \<noteq> i \<longrightarrow> values' st' ! j = values' st ! j \<and> old_values st' ! j = old_values st ! j
                 \<and> activated st' ! j = activated st ! j \<and> was_activated st' ! j = was_activated st ! j)"
  using assms
  by (auto simp: Start_step_def Let_def sized_def Size_def split: if_splits option.splits)

lemma Start_loop_effect:
  assumes "Start_loop c idxs st = Inr st'" and "sized st" and "\<forall>i \<in> set idxs. i < Size st"
  shows "sized st' \<and> vars st' = vars st \<and> changes st' = changes st \<and>
         has_changed st' = has_changed st \<and>
         (\<forall>i \<in> set idxs. values' st' ! i = old_values st' ! i
               \<and> activated st' ! i = was_activated st' ! i) \<and>
         (\<forall>j. j \<notin> set idxs \<longrightarrow> values' st' ! j = values' st ! j
               \<and> old_values st' ! j = old_values st ! j
               \<and> activated st' ! j = activated st ! j
               \<and> was_activated st' ! j = was_activated st ! j)"
  using assms
proof (induction idxs arbitrary: st)
  case Nil
  then show ?case by simp
next
  case (Cons i rest)
  from Cons.prems(1) obtain s1 where s1: "Start_step c i st = Inr s1"
      and rest: "Start_loop c rest s1 = Inr st'"
    by (auto split: sum.splits)
  have e1: "sized s1" "vars s1 = vars st" "changes s1 = changes st"
      "has_changed s1 = has_changed st"
      "values' s1 ! i = old_values s1 ! i" "activated s1 ! i = was_activated s1 ! i"
      "\<forall>j. j \<noteq> i \<longrightarrow> values' s1 ! j = values' st ! j \<and> old_values s1 ! j = old_values st ! j
                 \<and> activated s1 ! j = activated st ! j \<and> was_activated s1 ! j = was_activated st ! j"
    using Start_step_effect [OF s1 Cons.prems(2)] Cons.prems(3) by simp_all
  have "\<forall>i \<in> set rest. i < Size s1" using Cons.prems(3) e1(2) by (simp add: Size_def)
  from Cons.IH [OF rest e1(1) this]
  have e2: "sized st'" "vars st' = vars s1" "changes st' = changes s1"
      "has_changed st' = has_changed s1"
      "\<forall>i \<in> set rest. values' st' ! i = old_values st' ! i
               \<and> activated st' ! i = was_activated st' ! i"
      "\<forall>j. j \<notin> set rest \<longrightarrow> values' st' ! j = values' s1 ! j
               \<and> old_values st' ! j = old_values s1 ! j
               \<and> activated st' ! j = activated s1 ! j
               \<and> was_activated st' ! j = was_activated s1 ! j"
    by simp_all
  have here: "values' st' ! i = old_values st' ! i \<and> activated st' ! i = was_activated st' ! i"
  proof (cases "i \<in> set rest")
    case True
    then show ?thesis using e2(5) by simp
  next
    case False
    then show ?thesis using e2(6) e1(5,6) by simp
  qed
  show ?case using e1 e2 here by auto
qed

lemma Start_reference_values:
  assumes "op_inv st" and "Start OnStart_default st c = Inr st'"
  shows "op_inv st' \<and> Size st' = Size st \<and>
         (\<forall>i < Size st'. values' st' ! i = old_values st' ! i
                \<and> activated st' ! i = was_activated st' ! i)"
proof -
  have loop: "Start_loop c [0..<Size st] st = Inr st'"
    using assms(2) by (auto simp: Start_def OnStart_default_def split: if_splits sum.splits)
  have sz: "sized st" using assms(1) by (simp add: op_inv_def)
  have e: "sized st'" "vars st' = vars st" "changes st' = changes st"
      "has_changed st' = has_changed st"
      "\<forall>i \<in> set [0..<Size st]. values' st' ! i = old_values st' ! i
               \<and> activated st' ! i = was_activated st' ! i"
    using Start_loop_effect [OF loop sz] by simp_all
  have S: "Size st' = Size st" using e(2) by (simp add: Size_def)
  have "tracked st'"
    using assms(1) e S by (simp add: op_inv_def tracked_def)
  then show ?thesis using e S by (simp add: op_inv_def)
qed

subsection \<open>Start\<close>

lemma ElementOf_None_iff: "ElementOf c var = None \<longleftrightarrow> \<not> Contains c var"
  by (auto simp: ElementOf_def Contains_def find_None_iff list_ex_iff)

lemma Start_step_Inl_iff:
  "(\<exists>e. Start_step c i st = Inl e) \<longleftrightarrow>
     elem_Var (c ! i) \<noteq> vars st ! i \<and> \<not> Contains c (vars st ! i)"
  using ElementOf_None_iff [of c "vars st ! i"]
  by (auto simp: Start_step_def Let_def split: option.splits)

lemma Start_step_vars: "Start_step c i st = Inr st' \<Longrightarrow> vars st' = vars st"
  by (auto simp: Start_step_def Let_def split: option.splits if_splits)

lemma Start_loop_Inl_iff:
  "(\<exists>e. Start_loop c idxs st = Inl e) \<longleftrightarrow>
     (\<exists>i \<in> set idxs. elem_Var (c ! i) \<noteq> vars st ! i \<and> \<not> Contains c (vars st ! i))"
proof (induction idxs arbitrary: st)
  case Nil
  then show ?case by simp
next
  case (Cons i rest)
  show ?case
  proof (cases "Start_step c i st")
    case (Inl e)
    then have "elem_Var (c ! i) \<noteq> vars st ! i \<and> \<not> Contains c (vars st ! i)"
      using Start_step_Inl_iff [of c i st] by auto
    with Inl show ?thesis by auto
  next
    case (Inr st')
    then have ok: "\<not> (elem_Var (c ! i) \<noteq> vars st ! i \<and> \<not> Contains c (vars st ! i))"
      using Start_step_Inl_iff [of c i st] by auto
    have v: "vars st' = vars st" using Inr by (rule Start_step_vars)
    show ?thesis using Inr Cons.IH [of st'] ok v by auto
  qed
qed

text \<open>
  The two fatal checks of \<^verbatim>\<open>Start\<close> fire whatever \<^verbatim>\<open>OnStart\<close> the subclass supplies.
\<close>

lemma Start_fatal_any_OnStart:
  "length c < Size st \<or>
   (\<exists>i. i < Size st \<and> elem_Var (c ! i) \<noteq> Var st i \<and> \<not> Contains c (Var st i))
   \<Longrightarrow> \<exists>e. Start OnStart st c = Inl e"
proof (cases "length c < Size st")
  case True
  then show ?thesis by (simp add: Start_def)
next
  case False
  assume "length c < Size st \<or>
   (\<exists>i. i < Size st \<and> elem_Var (c ! i) \<noteq> Var st i \<and> \<not> Contains c (Var st i))"
  with False have "\<exists>e. Start_loop c [0..<Size st] st = Inl e"
    using Start_loop_Inl_iff [of c "[0..<Size st]" st] by (auto simp: Var_def)
  with False show ?thesis by (auto simp: Start_def)
qed

text \<open>
  C4 (as amended). \<^verbatim>\<open>Start(a)\<close> of the base operator fails with a fatal error exactly when
  \<open>a\<close> holds fewer elements than the operator has variables, or when some slot \<open>i\<close> of \<open>a\<close>
  holds a different variable than the operator's \<open>var[i]\<close> and \<open>a\<close> does not contain
  \<open>var[i]\<close> at all. A different variable at a slot is not fatal by itself: the element
  is then looked up by variable.
\<close>

theorem Start_fatal_iff:
  "(\<exists>e. Start OnStart_default st c = Inl e) \<longleftrightarrow>
     length c < Size st \<or>
     (\<exists>i. i < Size st \<and> elem_Var (c ! i) \<noteq> Var st i \<and> \<not> Contains c (Var st i))"
proof (cases "length c < Size st")
  case True
  then show ?thesis by (simp add: Start_def)
next
  case False
  have "(\<exists>e. Start OnStart_default st c = Inl e) \<longleftrightarrow>
        (\<exists>e. Start_loop c [0..<Size st] st = Inl e)"
    using False by (auto simp: Start_def OnStart_default_def split: sum.splits)
  then show ?thesis
    using False Start_loop_Inl_iff [of c "[0..<Size st]" st] by (auto simp: Var_def)
qed

theorem Start_fatal_iff_witness:
  "(\<exists>e. Start OnStart_default (IntVarLocalSearchOperator c4_vars) c4_missing = Inl e) \<and>
   (\<exists>e. Start OnStart_default (IntVarLocalSearchOperator c4_vars) [] = Inl e)"
proof -
  have a: "(1::nat) < Size (IntVarLocalSearchOperator c4_vars) \<and>
        elem_Var (c4_missing ! 1) \<noteq> Var (IntVarLocalSearchOperator c4_vars) 1 \<and>
        \<not> Contains c4_missing (Var (IntVarLocalSearchOperator c4_vars) 1)"
    by (simp add: Size_def IntVarLocalSearchOperator_def c4_vars_def c4_missing_def
        Var_def Contains_def)
  have b: "length ([] :: container) < Size (IntVarLocalSearchOperator c4_vars)"
    by (simp add: Size_def IntVarLocalSearchOperator_def c4_vars_def)
  show ?thesis
    using Start_fatal_iff [of "IntVarLocalSearchOperator c4_vars" c4_missing]
      Start_fatal_iff [of "IntVarLocalSearchOperator c4_vars" "[]"] a b
    by blast
qed

text \<open>
  The claim as stated fails: slot 0 of the assignment holds another variable than the
  operator's, and \<^verbatim>\<open>Start\<close> succeeds, reading each variable's own element.
\<close>

theorem Start_mismatched_slot_succeeds:
  "elem_Var (c4_swapped ! 0) \<noteq> Var (IntVarLocalSearchOperator c4_vars) 0 \<and>
   Start OnStart_default (IntVarLocalSearchOperator c4_vars) c4_swapped =
     Inr ((IntVarLocalSearchOperator c4_vars)
            \<lparr>values' := [3, 7], old_values := [3, 7],
             activated := [True, True], was_activated := [True, True]\<rparr>)"
  by (simp add: Start_def Start_step_def OnStart_default_def Size_def Var_def
      IntVarLocalSearchOperator_def c4_vars_def c4_swapped_def Contains_def ElementOf_def
      upt_rec Let_def)

subsection \<open>CheckChainValidity\<close>

lemma walk_0 [simp]: "walk st b 0 = b"
  by (simp add: walk_def)

lemma walk_Suc [simp]: "walk st b (Suc k) = Next st (walk st b k)"
  by (simp add: walk_def)

lemma walk_add: "walk st b (a + m) = (Next st ^^ m) (walk st b a)"
  by (simp add: walk_def add.commute [of a m] funpow_add)

lemma CheckChainValidity_loop_iff:
  "current = walk st b m \<Longrightarrow> m \<le> number_of_nexts st + 1 \<Longrightarrow>
   CheckChainValidity_loop st e x current m \<longleftrightarrow>
     (\<exists>k. m \<le> k \<and> k \<le> number_of_nexts st + 1 \<and> walk st b k = e \<and>
          (\<forall>j. m \<le> j \<and> j < k \<longrightarrow> walk st b j \<noteq> e \<and> \<not> IsPathEnd st (walk st b j)) \<and>
          (\<forall>j. m < j \<and> j \<le> k \<longrightarrow> walk st b j \<noteq> x))"
proof (induction st e x current m rule: CheckChainValidity_loop.induct)
  case (1 st e x current m)
  let ?n = "number_of_nexts st"
  let ?R = "\<lambda>m. (\<exists>k. m \<le> k \<and> k \<le> ?n + 1 \<and> walk st b k = e \<and>
          (\<forall>j. m \<le> j \<and> j < k \<longrightarrow> walk st b j \<noteq> e \<and> \<not> IsPathEnd st (walk st b j)) \<and>
          (\<forall>j. m < j \<and> j \<le> k \<longrightarrow> walk st b j \<noteq> x))"
  show ?case
  proof (cases "current = e")
    case True
    then have "CheckChainValidity_loop st e x current m"
      by (simp add: CheckChainValidity_loop.simps)
    moreover have "?R m"
      using True "1.prems" by (intro exI [of _ m]) auto
    ultimately show ?thesis by blast
  next
    case ne: False
    have first: "\<And>k. m \<le> k \<Longrightarrow> walk st b k = e \<Longrightarrow> Suc m \<le> k"
      using ne "1.prems"(1) by (metis le_antisym not_less_eq_eq)
    show ?thesis
    proof (cases "m > ?n")
      case True
      then have "\<not> CheckChainValidity_loop st e x current m"
        using ne by (simp add: CheckChainValidity_loop.simps)
      moreover have "\<not> ?R m"
        using True first by fastforce
      ultimately show ?thesis by blast
    next
      case small: False
      show ?thesis
      proof (cases "IsPathEnd st current")
        case True
        then have "\<not> CheckChainValidity_loop st e x current m"
          using ne small by (simp add: CheckChainValidity_loop.simps)
        moreover have "\<not> ?R m"
        proof
          assume "?R m"
          then obtain k where k: "m \<le> k" "walk st b k = e"
            "\<forall>j. m \<le> j \<and> j < k \<longrightarrow> walk st b j \<noteq> e \<and> \<not> IsPathEnd st (walk st b j)"
            by blast
          then have "m < k" using first by fastforce
          with k(3) have "\<not> IsPathEnd st (walk st b m)" by blast
          with True "1.prems"(1) show False by simp
        qed
        ultimately show ?thesis by blast
      next
        case inner: False
        show ?thesis
        proof (cases "Next st current = x")
          case True
          then have "\<not> CheckChainValidity_loop st e x current m"
            using ne small inner by (simp add: CheckChainValidity_loop.simps Let_def)
          moreover have "\<not> ?R m"
          proof
            assume "?R m"
            then obtain k where k: "m \<le> k" "walk st b k = e"
              "\<forall>j. m < j \<and> j \<le> k \<longrightarrow> walk st b j \<noteq> x"
              by blast
            then have "Suc m \<le> k" using first by blast
            with k(3) have "walk st b (Suc m) \<noteq> x" by (metis lessI)
            with True "1.prems"(1) show False by simp
          qed
          ultimately show ?thesis by blast
        next
          case nx: False
          have unfold: "CheckChainValidity_loop st e x current m =
                CheckChainValidity_loop st e x (Next st current) (m + 1)"
            using ne small inner nx
            by (subst CheckChainValidity_loop.simps) (simp add: Let_def)
          have IH: "CheckChainValidity_loop st e x (Next st current) (m + 1) = ?R (m + 1)"
            using "1.IH" [OF ne _ inner refl refl nx] small "1.prems"(1) by simp
          have "?R (m + 1) = ?R m"
          proof
            assume "?R (m + 1)"
            then obtain k where k: "m + 1 \<le> k" "k \<le> ?n + 1" "walk st b k = e"
              "\<forall>j. m + 1 \<le> j \<and> j < k \<longrightarrow> walk st b j \<noteq> e \<and> \<not> IsPathEnd st (walk st b j)"
              "\<forall>j. m + 1 < j \<and> j \<le> k \<longrightarrow> walk st b j \<noteq> x"
              by blast
            have a: "\<forall>j. m \<le> j \<and> j < k \<longrightarrow> walk st b j \<noteq> e \<and> \<not> IsPathEnd st (walk st b j)"
            proof (intro allI impI)
              fix j assume j: "m \<le> j \<and> j < k"
              show "walk st b j \<noteq> e \<and> \<not> IsPathEnd st (walk st b j)"
              proof (cases "j = m")
                case True
                then show ?thesis using ne inner "1.prems"(1) by simp
              next
                case False
                then show ?thesis using j k(4) by simp
              qed
            qed
            have c: "\<forall>j. m < j \<and> j \<le> k \<longrightarrow> walk st b j \<noteq> x"
            proof (intro allI impI)
              fix j assume j: "m < j \<and> j \<le> k"
              show "walk st b j \<noteq> x"
              proof (cases "j = m + 1")
                case True
                then show ?thesis using nx "1.prems"(1) by simp
              next
                case False
                then show ?thesis using j k(5) by simp
              qed
            qed
            show "?R m" using k(1,2,3) a c by (intro exI [of _ k]) simp
          next
            assume "?R m"
            then obtain k where k: "m \<le> k" "k \<le> ?n + 1" "walk st b k = e"
              "\<forall>j. m \<le> j \<and> j < k \<longrightarrow> walk st b j \<noteq> e \<and> \<not> IsPathEnd st (walk st b j)"
              "\<forall>j. m < j \<and> j \<le> k \<longrightarrow> walk st b j \<noteq> x"
              by blast
            have "m + 1 \<le> k" using first k(1,3) by fastforce
            then show "?R (m + 1)" using k by (intro exI [of _ k]) simp
          qed
          with unfold IH show ?thesis by simp
        qed
      qed
    qed
  qed
qed

lemma CheckChainValidity_walk:
  "CheckChainValidity st b e x \<longleftrightarrow>
     b \<noteq> e \<and> b \<noteq> x \<and>
     (\<exists>k. k \<le> number_of_nexts st + 1 \<and> walk st b k = e \<and>
          (\<forall>j. j < k \<longrightarrow> walk st b j \<noteq> e \<and> \<not> IsPathEnd st (walk st b j)) \<and>
          (\<forall>j. 0 < j \<and> j \<le> k \<longrightarrow> walk st b j \<noteq> x))"
  using CheckChainValidity_loop_iff [of b st b 0 e x]
  by (auto simp: CheckChainValidity_def)

lemma walk_nonneg:
  "nodes_ok st b \<Longrightarrow> (\<forall>j<k. \<not> IsPathEnd st (walk st b j)) \<Longrightarrow> 0 \<le> walk st b k"
proof (induction k)
  case 0
  then show ?case by (simp add: nodes_ok_def)
next
  case (Suc k)
  then have "0 \<le> walk st b k" by simp
  moreover have "\<not> IsPathEnd st (walk st b k)" using Suc.prems by simp
  ultimately have "nat (walk st b k) < number_of_nexts st"
    by (simp add: IsPathEnd_def)
  then show ?case using Suc.prems(1) by (simp add: nodes_ok_def Next_def)
qed

lemma walk_cycle:
  assumes "walk st b i = walk st b j"
  shows "walk st b (i + m) = walk st b (j + m)"
  using assms by (simp add: walk_add)

lemma chain_length_bound:
  assumes ok: "nodes_ok st b"
    and arrive: "walk st b k = e"
    and before: "\<forall>j<k. walk st b j \<noteq> e \<and> \<not> IsPathEnd st (walk st b j)"
  shows "k \<le> number_of_nexts st"
proof (rule ccontr)
  let ?n = "number_of_nexts st"
  let ?w = "walk st b"
  assume "\<not> k \<le> ?n"
  then have big: "?n < k" by simp
  have range: "?w ` {0..?n} \<subseteq> {0..<int ?n}"
  proof
    fix y assume "y \<in> ?w ` {0..?n}"
    then obtain j where j: "j \<le> ?n" "y = ?w j" by auto
    then have "j < k" using big by simp
    have "0 \<le> ?w j" using ok before \<open>j < k\<close> by (intro walk_nonneg) auto
    moreover have "\<not> IsPathEnd st (?w j)" using before \<open>j < k\<close> by simp
    ultimately show "y \<in> {0..<int ?n}" using j by (simp add: IsPathEnd_def)
  qed
  have "card (?w ` {0..?n}) \<le> card {0..<int ?n}"
    by (rule card_mono) (use range in auto)
  then have "card (?w ` {0..?n}) < card {0..?n}" by simp
  then have "\<not> inj_on ?w {0..?n}" by (rule pigeonhole)
  then obtain i j where ij: "i \<le> ?n" "j \<le> ?n" "i \<noteq> j" "?w i = ?w j"
    by (auto simp: inj_on_def)
  define lo where "lo = min i j"
  define hi where "hi = max i j"
  have lohi: "lo < hi" "hi \<le> ?n" "?w lo = ?w hi"
    using ij by (auto simp: lo_def hi_def min_def max_def)
  have "?w (lo + (k - hi)) = ?w (hi + (k - hi))"
    using lohi(3) by (rule walk_cycle)
  moreover have "hi + (k - hi) = k" using lohi big by simp
  ultimately have "?w (lo + (k - hi)) = e" using arrive by simp
  moreover have "lo + (k - hi) < k" using lohi big by simp
  ultimately show False using before by blast
qed

text \<open>
  C5 (as amended). For next values and a starting node that are node identifiers,
  \<^verbatim>\<open>CheckChainValidity(before_chain, chain_end, exclude)\<close> returns false when the chain is
  empty, when \<open>before_chain\<close> is \<open>exclude\<close> or the walk from \<open>before_chain\<close> reaches \<open>exclude\<close>
  before or at \<open>chain_end\<close> (so also when \<open>exclude\<close> is \<open>chain_end\<close>), when a path end is
  reached before \<open>chain_end\<close>, or when the walk along \<open>Next\<close> exceeds \<open>n_next\<close> steps; in all
  other cases it returns true.
\<close>

theorem CheckChainValidity_chain_valid:
  assumes "nodes_ok st before_chain"
  shows "CheckChainValidity st before_chain chain_end exclude
           = chain_valid st before_chain chain_end exclude"
proof
  assume "CheckChainValidity st before_chain chain_end exclude"
  then obtain k where k: "before_chain \<noteq> chain_end" "before_chain \<noteq> exclude"
      "walk st before_chain k = chain_end"
      "\<forall>j<k. walk st before_chain j \<noteq> chain_end \<and> \<not> IsPathEnd st (walk st before_chain j)"
      "\<forall>j. 0 < j \<and> j \<le> k \<longrightarrow> walk st before_chain j \<noteq> exclude"
    unfolding CheckChainValidity_walk by blast
  have "k \<le> number_of_nexts st"
    using assms k(3,4) by (rule chain_length_bound)
  moreover have "1 \<le> k" using k(1,3) by (cases k) auto
  ultimately have kin: "k \<in> {1..number_of_nexts st}" by simp
  have a: "\<forall>j \<in> {0..<k}. walk st before_chain j \<noteq> chain_end
                           \<and> \<not> IsPathEnd st (walk st before_chain j)"
    using k(4) by simp
  have c: "\<forall>j \<in> {1..k}. walk st before_chain j \<noteq> exclude"
    using k(5) by simp
  show "chain_valid st before_chain chain_end exclude"
    unfolding chain_valid_def using k(1,2,3) kin a c by blast
next
  assume "chain_valid st before_chain chain_end exclude"
  then obtain k where k: "before_chain \<noteq> chain_end" "before_chain \<noteq> exclude"
      "k \<in> {1..number_of_nexts st}" "walk st before_chain k = chain_end"
      "\<forall>j \<in> {0..<k}. walk st before_chain j \<noteq> chain_end
                       \<and> \<not> IsPathEnd st (walk st before_chain j)"
      "\<forall>j \<in> {1..k}. walk st before_chain j \<noteq> exclude"
    unfolding chain_valid_def by blast
  have "k \<le> number_of_nexts st + 1" using k(3) by simp
  moreover have "\<forall>j. j < k \<longrightarrow> walk st before_chain j \<noteq> chain_end
                           \<and> \<not> IsPathEnd st (walk st before_chain j)"
    using k(5) by simp
  moreover have "\<forall>j. 0 < j \<and> j \<le> k \<longrightarrow> walk st before_chain j \<noteq> exclude"
    using k(6) by simp
  ultimately show "CheckChainValidity st before_chain chain_end exclude"
    unfolding CheckChainValidity_walk using k(1,2,4) by blast
qed

lemmas ccv_eval = ccv_state_def Next_def Value_def IsPathEnd_def Let_def

lemma ccv_run_1: "CheckChainValidity ccv_state 0 1 1 = False"
  by (simp add: CheckChainValidity_def CheckChainValidity_loop.simps ccv_eval)

lemma ccv_run_2: "CheckChainValidity ccv_state 0 2 (-1) = True"
  by (simp add: CheckChainValidity_def CheckChainValidity_loop.simps ccv_eval)

text \<open>
  The claim as stated fails when \<open>exclude\<close> is \<open>chain_end\<close>: on the route
  \<open>0 \<rightarrow> 1 \<rightarrow> 2 \<rightarrow> 3\<close> the chain from 0 to 1 is not empty, meets no path end, takes one step and
  does not reach \<open>exclude = 1\<close> before \<open>chain_end = 1\<close>, and it is rejected.
\<close>

theorem CheckChainValidity_rejects_exclude_at_chain_end:
  "claimed_valid ccv_state 0 1 1 \<and> \<not> CheckChainValidity ccv_state 0 1 1"
proof -
  have "walk ccv_state 0 1 = 1" by (simp add: ccv_eval)
  moreover have "\<not> IsPathEnd ccv_state 0" by (simp add: ccv_eval)
  ultimately have "claimed_valid ccv_state 0 1 1"
    unfolding claimed_valid_def
    by (auto intro!: bexI [of _ 1] simp: ccv_state_def)
  then show ?thesis using ccv_run_1 by simp
qed

theorem CheckChainValidity_chain_valid_witness:
  "nodes_ok ccv_state 0 \<and> CheckChainValidity ccv_state 0 2 (-1) \<and>
   chain_valid ccv_state 0 2 (-1) \<and>
   \<not> CheckChainValidity ccv_state 0 1 1 \<and> \<not> chain_valid ccv_state 0 1 1"
proof -
  have h: "nodes_ok ccv_state 0"
    by (simp add: nodes_ok_def ccv_state_def Value_def less_Suc_eq eval_nat_numeral)
  show ?thesis
    using h CheckChainValidity_chain_valid [OF h, of 2 "-1"]
      CheckChainValidity_chain_valid [OF h, of 1 1] ccv_run_1 ccv_run_2
    by simp
qed

subsection \<open>The objective filter\<close>

lemmas filter_eval =
  BinaryObjectiveFilter_def filter_AddVars_def f_Size_def Synchronize_def OnSynchronize_def
  SynchronizedElementValue_def EvaluateElementValue_def FindIndex_def Evaluate_def
  Accept_def Empty_def kint64max_def new_element_def elem_SetValue_def Let_def

lemmas of_eval =
  of_filter_def of_vars_def of_objective_def of_reference_def of_delta_def of_empty_def

lemma of_filter_eq:
  "of_filter =
     \<lparr>f_vars = of_vars, f_values = [10, 20, 30, 40],
      var_to_index = AddVars_index of_vars 0 (\<lambda>v. None),
      primary_vars_size = 4, cache = [10, 20, 30, 40], delta_cache = [10, 20, 30, 40],
      objective = of_objective, filter_enum = Solver_LE, op = SumOperation 100,
      old_value = 100, old_delta_value = 100, incremental = False,
      value_evaluator = (\<lambda>i v. v)\<rparr>"
  by (simp add: of_eval filter_eval upt_rec)

lemma of_accept_31: "fst (Accept (Some (of_delta 31)) of_empty of_filter) = False"
  by (simp add: of_filter_eq) (simp add: of_eval filter_eval)

lemma of_accept_29: "fst (Accept (Some (of_delta 29)) of_empty of_filter) = True"
  by (simp add: of_filter_eq) (simp add: of_eval filter_eval)

lemma of_accept_31_then_29:
  "fst (Accept (Some (of_delta 29)) of_empty
          (snd (Accept (Some (of_delta 31)) of_empty of_filter))) = True"
  by (simp add: of_filter_eq) (simp add: of_eval filter_eval)

text \<open>
  C7. A binary objective filter with SUM aggregation and bound mode LE, on an objective
  variable of maximum 100 and the evaluator \<open>eval(i, v) = v\<close>, synchronized on four bound
  variables valued \<open>[10, 20, 30, 40]\<close>, holds the running sum 100. With an empty delta of
  delta, \<^verbatim>\<open>Accept\<close> of the delta \<open>var2 := 31\<close> returns false and \<^verbatim>\<open>Accept\<close> of the delta
  \<open>var2 := 29\<close> returns true, asked first or after the rejected delta.
\<close>

theorem ObjectiveFilter_scenario:
  "op_value (op of_filter) = 100 \<and>
   fst (Accept (Some (of_delta 31)) of_empty of_filter) = False \<and>
   fst (Accept (Some (of_delta 29)) of_empty of_filter) = True \<and>
   fst (Accept (Some (of_delta 29)) of_empty
          (snd (Accept (Some (of_delta 31)) of_empty of_filter))) = True"
  using of_accept_31 of_accept_29 of_accept_31_then_29 by (simp add: of_filter_eq)

text \<open>
  C6. The claim asks that after \<^verbatim>\<open>Update(x)\<close> twice and \<^verbatim>\<open>Remove(x)\<close> once the value still
  accounts for one copy of \<open>x\<close>. The code keeps the contributions in a set: the second
  \<^verbatim>\<open>Update(5)\<close> adds nothing and the single \<^verbatim>\<open>Remove(5)\<close> erases the value, so MAX and MIN
  answer 0 (the empty container) where one remaining copy would give 5, which is what
  the sibling \<^verbatim>\<open>SumOperation\<close> answers.
\<close>

theorem MaxMin_loses_duplicate:
  "op_value (op_Remove 5 (op_Update 5 (op_Update 5 (op_Init (OperationFromEnum Solver_MAX))))) = 0 \<and>
   op_value (op_Update 5 (op_Init (OperationFromEnum Solver_MAX))) = 5 \<and>
   op_value (op_Remove 5 (op_Update 5 (op_Update 5 (op_Init (OperationFromEnum Solver_MIN))))) = 0 \<and>
   op_value (op_Update 5 (op_Init (OperationFromEnum Solver_MIN))) = 5 \<and>
   op_value (op_Remove 5 (op_Update 5 (op_Update 5 (op_Init (OperationFromEnum Solver_SUM))))) = 5"
  by simp

text \<open>In general the set forgets every copy of the removed contribution.\<close>

lemma MaxMin_Remove_after_two_Updates:
  "op_value (op_Remove x (op_Update x (op_Update x (MaxMinOperation mx S)))) =
   op_value (MaxMinOperation mx (S - {x}))"
  by simp

text \<open>
  The consequence in the filter: on contributions \<open>[5, 5, 3]\<close> under MAX, the delta
  \<open>var0 := 1\<close> leaves the candidate contributions \<open>[1, 5, 3]\<close>, of maximum 5, yet the filter
  computes 3 and, with bound mode GE on an objective of minimum 4, rejects the delta.
\<close>

lemma MaxFilter_wrong_maximum:
  "op_value (op mm_filter) = 5 \<and>
   fst (Accept (Some mm_delta) of_empty mm_filter) = False \<and>
   old_delta_value (snd (Accept (Some mm_delta) of_empty mm_filter)) = 3"
  by (simp add: mm_filter_def mm_vars_def mm_reference_def mm_delta_def of_empty_def
      filter_eval upt_rec insert_Diff_if)

subsection \<open>TwoOpt and the delta of delta\<close>

lemma MarkChange_frame:
  "cleared (MarkChange i st) = cleared st \<and> op_state.more (MarkChange i st) = op_state.more st"
  by (simp add: MarkChange_def Let_def)

lemma SetValue_frame:
  "cleared (SetValue i v st) = cleared st \<and> op_state.more (SetValue i v st) = op_state.more st"
  by (simp add: SetValue_def MarkChange_frame)

lemma SetNext_frame:
  "cleared (SetNext f t p st) = cleared st \<and> op_state.more (SetNext f t p st) = op_state.more st"
  by (simp add: SetNext_def Let_def SetValue_frame)

lemma ReverseChain_loop_frame:
  assumes "ReverseChain_loop after_chain path current current_next st = Some y"
  shows "cleared (snd y) = cleared st \<and> op_state.more (snd y) = op_state.more st"
proof (rule ReverseChain_loop.raw_induct
    [where P = "\<lambda>a p c cn s r. cleared (snd r) = cleared s \<and> op_state.more (snd r) = op_state.more s",
      OF _ assms])
  fix loop :: "int \<Rightarrow> int \<Rightarrow> int \<Rightarrow> int \<Rightarrow> 'a path_state_scheme \<Rightarrow> (int \<times> 'a path_state_scheme) option"
  fix a p c cn s r
  assume IH: "\<And>a p c cn s r. loop a p c cn s = Some r \<Longrightarrow>
                cleared (snd r) = cleared s \<and> op_state.more (snd r) = op_state.more s"
    and eq: "(if cn \<noteq> a then loop a p cn (Next s cn) (SetNext cn c p s) else Some (c, s)) = Some r"
  show "cleared (snd r) = cleared s \<and> op_state.more (snd r) = op_state.more s"
  proof (cases "cn \<noteq> a")
    case True
    then have "loop a p cn (Next s cn) (SetNext cn c p s) = Some r" using eq by simp
    from IH [OF this] show ?thesis by (simp add: SetNext_frame)
  next
    case False
    then show ?thesis using eq by auto
  qed
qed

lemma ReverseChain_frame:
  "ReverseChain before_chain after_chain st = Some (ok, chain_last, st') \<Longrightarrow>
   cleared st' = cleared st \<and> op_state.more st' = op_state.more st"
  by (auto simp: ReverseChain_def Let_def SetNext_frame split: if_splits option.splits prod.splits
      dest!: ReverseChain_loop_frame)

lemma RevertChanges_loop_more:
  "op_state.more (RevertChanges_loop idxs st) = op_state.more st"
  by (induction idxs arbitrary: st) simp_all

lemma RevertChanges_frame:
  "op_state.more (RevertChanges inc b st) = op_state.more st \<and>
   (\<not> (b \<and> inc) \<longrightarrow> cleared (RevertChanges inc b st))"
proof -
  have "cleared (RevertChanges_loop idxs s) = cleared s" for idxs and s :: "'a op_state_scheme"
    by (induction idxs arbitrary: s) simp_all
  then show ?thesis by (auto simp: RevertChanges_def Let_def RevertChanges_loop_more)
qed

lemma IncrementPosition_advance_frame:
  "cleared (snd (IncrementPosition_advance idxs lr st)) = cleared st \<and>
   path_state.more (snd (IncrementPosition_advance idxs lr st)) = path_state.more st"
  by (induction idxs arbitrary: lr st) simp_all

lemma IncrementPosition_reposition_frame:
  "cleared (IncrementPosition_reposition g idxs st) = cleared st \<and>
   path_state.more (IncrementPosition_reposition g idxs st) = path_state.more st"
  by (induction idxs arbitrary: st) simp_all

lemma IncrementPosition_paths_frame:
  "cleared (snd (IncrementPosition_paths same idxs st)) = cleared st \<and>
   path_state.more (snd (IncrementPosition_paths same idxs st)) = path_state.more st"
  by (induction idxs arbitrary: st) (simp_all add: Let_def)

lemma IncrementPosition_frame:
  "cleared (snd (IncrementPosition same g st)) = cleared st \<and>
   path_state.more (snd (IncrementPosition same g st)) = path_state.more st"
proof (cases "just_started st")
  case True
  then show ?thesis by (simp add: IncrementPosition_def Let_def)
next
  case False
  obtain lr s1 where a: "IncrementPosition_advance (rev [0..<length (base_nodes st)])
                           (length (base_nodes st)) st = (lr, s1)"
    by (cases "IncrementPosition_advance (rev [0..<length (base_nodes st)])
                 (length (base_nodes st)) st")
  have f1: "cleared s1 = cleared st" "path_state.more s1 = path_state.more st"
    using IncrementPosition_advance_frame
      [of "rev [0..<length (base_nodes st)]" "length (base_nodes st)" st] a
    by simp_all
  let ?s2 = "IncrementPosition_reposition g [lr..<length (base_nodes st)] s1"
  have f2: "cleared ?s2 = cleared st" "path_state.more ?s2 = path_state.more st"
    using IncrementPosition_reposition_frame [of g "[lr..<length (base_nodes st)]" s1] f1
    by simp_all
  obtain res s3 where p: "IncrementPosition_paths same (rev [0..<length (base_nodes st)]) ?s2
                            = (res, s3)"
    by (cases "IncrementPosition_paths same (rev [0..<length (base_nodes st)]) ?s2")
  have f3: "cleared s3 = cleared st" "path_state.more s3 = path_state.more st"
    using IncrementPosition_paths_frame [of same "rev [0..<length (base_nodes st)]" ?s2] p f2
    by simp_all
  show ?thesis
    using False a p f2 f3
    by (auto simp: IncrementPosition_def Let_def split: option.splits)
qed

lemma last_of_more:
  "path_state.more (st' :: two_opt) = path_state.more st \<Longrightarrow> last st' = last st"
  by (cases st, cases st') simp

lemma last_of_op_more:
  "op_state.more (st' :: two_opt) = op_state.more st \<Longrightarrow> last st' = last st \<and> base_nodes st' = base_nodes st"
  by (cases st, cases st') simp

lemma TwoOpt_MakeNeighbor_first:
  assumes "TwoOpt_MakeNeighbor st = Some (ok, st')" and "last st = - 1"
  shows "(ok \<longrightarrow> cleared st') \<and> (\<not> ok \<longrightarrow> last st' = - 1)"
proof -
  let ?s1 = "RevertChanges True False st"
  have c1: "cleared ?s1" using RevertChanges_frame [of True False st] by simp
  show ?thesis
  proof (cases "IsPathEnd ?s1 (BaseNode ?s1 0)")
    case True
    then show ?thesis using assms by (auto simp: TwoOpt_MakeNeighbor_def Let_def)
  next
    case False
    let ?s3 = "?s1\<lparr>last_base := BaseNode ?s1 0, last := Next ?s1 (BaseNode ?s1 0)\<rparr>"
    have c3: "cleared ?s3" using c1 by simp
    obtain r where r: "ReverseChain (BaseNode ?s3 0) (BaseNode ?s3 1) ?s3 = Some r"
      using assms False
      by (auto simp: TwoOpt_MakeNeighbor_def Let_def BaseNode_def Next_def Value_def IsPathEnd_def
          split: option.splits)
    obtain ok' cl s4 where r4: "r = (ok', cl, s4)" by (cases r)
    have "cleared s4" using ReverseChain_frame [of "BaseNode ?s3 0" "BaseNode ?s3 1" ?s3 ok' cl s4] r r4 c3
      by simp
    then show ?thesis
      using assms False r r4
      by (auto simp: TwoOpt_MakeNeighbor_def Let_def BaseNode_def Next_def Value_def IsPathEnd_def
          split: option.splits bool.splits)
  qed
qed

lemma TwoOpt_MakeOneNeighbor_cleared:
  assumes run: "PathOperator_MakeOneNeighbor True (IncrementPosition same g) TwoOpt_MakeNeighbor st
                  = Some y"
    and start: "last st = - 1"
  shows "fst y \<longrightarrow> cleared (snd y)"
proof -
  have "True = True \<longrightarrow> IncrementPosition same g = IncrementPosition same g \<longrightarrow>
        TwoOpt_MakeNeighbor = TwoOpt_MakeNeighbor \<longrightarrow> last st = - 1 \<longrightarrow> (fst y \<longrightarrow> cleared (snd y))"
  proof (rule PathOperator_MakeOneNeighbor.raw_induct
      [where P = "\<lambda>inc ip mn s r. inc = True \<longrightarrow> ip = IncrementPosition same g \<longrightarrow>
                    mn = TwoOpt_MakeNeighbor \<longrightarrow> last s = - 1 \<longrightarrow> (fst r \<longrightarrow> cleared (snd r))",
        OF _ run])
    fix loop :: "bool \<Rightarrow> (two_opt \<Rightarrow> bool \<times> two_opt) \<Rightarrow> (two_opt \<Rightarrow> (bool \<times> two_opt) option)
                   \<Rightarrow> two_opt \<Rightarrow> (bool \<times> two_opt) option"
    fix inc ip mn s r
    assume IH: "\<And>inc ip mn s r. loop inc ip mn s = Some r \<Longrightarrow>
                  inc = True \<longrightarrow> ip = IncrementPosition same g \<longrightarrow>
                  mn = TwoOpt_MakeNeighbor \<longrightarrow> last s = - 1 \<longrightarrow> (fst r \<longrightarrow> cleared (snd r))"
      and eq: "(let moved = ip s
                in if \<not> fst moved then Some (False, snd moved)
                   else Option.bind (mn (RevertChanges inc True (snd moved)))
                          (\<lambda>made. if fst made then Some (True, snd made)
                                   else loop inc ip mn (snd made))) = Some r"
    show "inc = True \<longrightarrow> ip = IncrementPosition same g \<longrightarrow>
          mn = TwoOpt_MakeNeighbor \<longrightarrow> last s = - 1 \<longrightarrow> (fst r \<longrightarrow> cleared (snd r))"
    proof (intro impI)
      assume inc: "inc = True" and ip: "ip = IncrementPosition same g"
        and mn: "mn = TwoOpt_MakeNeighbor" and l: "last s = - 1" and ok: "fst r"
      let ?s1 = "snd (ip s)"
      let ?s2 = "RevertChanges True True ?s1"
      have moved: "fst (ip s)" using eq ok by (auto simp: Let_def split: if_splits)
      have l1: "last ?s1 = - 1"
        using IncrementPosition_frame [of same g s] l ip last_of_more [of ?s1 s] by simp
      have l2: "last ?s2 = - 1"
        using RevertChanges_frame [of True True ?s1] l1 last_of_op_more [of ?s2 ?s1] by simp
      obtain made where made: "TwoOpt_MakeNeighbor ?s2 = Some made"
          and rest: "(if fst made then Some (True, snd made) else loop inc ip mn (snd made)) = Some r"
        using eq moved inc mn by (auto simp: Let_def bind_eq_Some_conv)
      have A: "(fst made \<longrightarrow> cleared (snd made)) \<and> (\<not> fst made \<longrightarrow> last (snd made) = - 1)"
        using TwoOpt_MakeNeighbor_first [of ?s2 "fst made" "snd made"] made l2 by simp
      show "cleared (snd r)"
      proof (cases "fst made")
        case True
        then show ?thesis using rest A by auto
      next
        case False
        then have "loop inc ip mn (snd made) = Some r" using rest by simp
        from IH [OF this] show ?thesis using inc ip mn A False ok by simp
      qed
    qed
  qed
  then show ?thesis using start by simp
qed

lemma TwoOpt_Start_last:
  assumes "TwoOpt_Start st c = Some (Inr s0)"
  shows "last s0 = - 1"
  using assms
  by (auto simp: TwoOpt_Start_def PathOperator_OnStart_def TwoOpt_OnNodeInitialization_def
      split: sum.splits)

lemma MakeNextNeighbor_partial_emits:
  assumes "MakeNextNeighbor_partial inc skip mon st (delta, dd) = Some (True, st', delta', dd')"
  shows "mon (RevertChanges inc True st) = Some (True, st') \<and>
         delta' = delta @ map (claimed_element st') (filter (claimed_in_delta (skip st') st') (changes st')) \<and>
         dd' = dd @ map (claimed_element st')
             (filter (\<lambda>i. claimed_in_delta (skip st') st' i \<and> claimed_in_deltadelta inc st' i)
                (changes st'))"
proof -
  obtain ok s2 where mon: "mon (RevertChanges inc True st) = Some (ok, s2)"
    using assms by (auto simp: MakeNextNeighbor_partial_def split: option.splits)
  then have "ok" "st' = s2" "ApplyChanges inc (skip s2) s2 (delta, dd) = (delta', dd')"
    using assms by (auto simp: MakeNextNeighbor_partial_def split: if_splits)
  then show ?thesis
    using mon ApplyChanges_loop_eq [of inc "skip s2" s2 "changes s2" delta dd]
    by (simp add: ApplyChanges_def)
qed

lemma MakeNextNeighbor_partial_total:
  "MakeNextNeighbor_partial inc skip (\<lambda>s. Some (mon s)) st dd = Some (MakeNextNeighbor inc skip mon st dd)"
  by (simp add: MakeNextNeighbor_partial_def MakeNextNeighbor_def Let_def split: prod.splits)

text \<open>
  C3 (as amended). For every operator, the delta of delta emitted by a successful
  \<^verbatim>\<open>MakeNextNeighbor\<close> (on cleared containers) is contained in the delta, and it is empty
  exactly when the operator is not incremental, or \<open>cleared\<close> is set when \<^verbatim>\<open>ApplyChanges\<close>
  runs (the operator's \<^verbatim>\<open>MakeOneNeighbor\<close> did a full revert during the call), or no
  index that is emitted was marked during the call. The first call after \<^verbatim>\<open>Start\<close> is no
  exception in the base class. For \<^verbatim>\<open>TwoOpt\<close>, the operator of the source whose
  \<^verbatim>\<open>IsIncremental\<close> returns true, the delta of delta of the first call after \<^verbatim>\<open>Start\<close> is
  empty: \<^verbatim>\<open>Start\<close> leaves \<open>last = -1\<close>, so until its first success every \<^verbatim>\<open>MakeNeighbor\<close>
  opens with a full revert, which sets \<open>cleared\<close>.
\<close>

theorem deltadelta_contained_and_empty:
  "(MakeNextNeighbor_partial inc skip mon st ([], []) = Some (True, st', delta', dd')
      \<longrightarrow> set dd' \<subseteq> set delta' \<and>
          (dd' = [] \<longleftrightarrow>
             \<not> inc \<or> cleared st' \<or>
             (\<forall>i \<in> set (changes st').
                claimed_in_delta (skip st') st' i \<longrightarrow> \<not> has_delta_changed st' ! i))) \<and>
   (TwoOpt_Start t c = Some (Inr t0) \<and>
    TwoOpt_MakeNextNeighbor t0 ([], []) = Some (True, t1, delta1, dd1)
      \<longrightarrow> dd1 = [])"
proof (intro conjI impI)
  assume run: "MakeNextNeighbor_partial inc skip mon st ([], []) = Some (True, st', delta', dd')"
  from MakeNextNeighbor_partial_emits [OF run] show "set dd' \<subseteq> set delta'" by auto
  have "dd' = map (claimed_element st')
               (filter (\<lambda>i. claimed_in_delta (skip st') st' i \<and> claimed_in_deltadelta inc st' i)
                  (changes st'))"
    using MakeNextNeighbor_partial_emits [OF run] by simp
  then show "dd' = [] \<longleftrightarrow>
             \<not> inc \<or> cleared st' \<or>
             (\<forall>i \<in> set (changes st').
                claimed_in_delta (skip st') st' i \<longrightarrow> \<not> has_delta_changed st' ! i)"
    by (auto simp: claimed_in_deltadelta_def filter_empty_conv)
next
  assume a: "TwoOpt_Start t c = Some (Inr t0) \<and>
    TwoOpt_MakeNextNeighbor t0 ([], []) = Some (True, t1, delta1, dd1)"
  then have l: "last t0 = - 1" using TwoOpt_Start_last by blast
  have e: "TwoOpt_MakeOneNeighbor (RevertChanges True True t0) = Some (True, t1)"
      "dd1 = map (claimed_element t1)
             (filter (\<lambda>i. claimed_in_delta (PathOperator_SkipUnchanged t1) t1 i
                         \<and> claimed_in_deltadelta True t1 i) (changes t1))"
    using a MakeNextNeighbor_partial_emits [of True PathOperator_SkipUnchanged TwoOpt_MakeOneNeighbor
        t0 "[]" "[]" t1 delta1 dd1]
    by (simp_all add: TwoOpt_MakeNextNeighbor_def)
  have "last (RevertChanges True True t0) = - 1"
    using RevertChanges_frame [of True True t0] l last_of_op_more [of "RevertChanges True True t0" t0]
    by simp
  then have "cleared t1"
    using TwoOpt_MakeOneNeighbor_cleared
      [of "\<lambda>base_index. True" GetBaseNodeRestartPosition_default "RevertChanges True True t0" "(True, t1)"]
      e(1)
    by (simp add: TwoOpt_MakeOneNeighbor_def)
  then show "dd1 = []" using e(2) by (simp add: claimed_in_deltadelta_def)
qed

subsection \<open>The outcomes of MakeNextNeighbor\<close>















subsection \<open>An incremental operator on its first call\<close>

text \<open>
  The second part of C3 as stated fails on the base class. Take the subclass of
  \<^verbatim>\<open>IncrementValue\<close> that overrides \<^verbatim>\<open>IsIncremental\<close> to return true and nothing else. \<^verbatim>\<open>Start\<close>
  does not touch \<open>cleared\<close>; the incremental revert that opens the first
  \<^verbatim>\<open>MakeNextNeighbor\<close> resets it and returns; \<^verbatim>\<open>SetValue\<close> then marks index 0, and
  \<^verbatim>\<open>ApplyChanges\<close> mirrors its element: the delta of delta of the first call is the delta,
  \<open>x0 := 6\<close>, not the empty assignment.
\<close>

theorem incremental_first_deltadelta_not_empty:
  "Start ChangeValue_OnStart (ChangeValue iv_vars) iv_reference = Inr iv_s0 \<and>
   MakeNextNeighbor_partial True SkipUnchanged_default IncrementValue_MakeOneNeighbor iv_s0 ([], [])
     = Some (True, iv_s1\<lparr>cleared := False\<rparr>,
             [\<lparr>elem_Var = IntVar 0 0 9, elem_Value = 6, elem_Activated = True\<rparr>],
             [\<lparr>elem_Var = IntVar 0 0 9, elem_Value = 6, elem_Activated = True\<rparr>])"
  by code_simp

subsection \<open>TwoOpt over two episodes\<close>



lemma tw_third_eq: "tw_third = Some (True, tw_s3, [tw_set 1 4, tw_set 0 3, tw_set 2 1, tw_set 3 2], [tw_set 1 4, tw_set 0 3, tw_set 3 2])"
  by code_simp


lemma tw_t0_eq: "TwoOpt_Start tw_s3 (tw_assignment (values' tw_s3)) = Some (Inr tw_t0)"
  by code_simp

lemma tw_first_eq: "tw_first = Some (True, tw_t1, [tw_set 3 4, tw_set 2 3, tw_set 1 2, tw_set 0 1], [])"
  by code_simp




subsection \<open>Cross over two episodes\<close>









text \<open>
  The parts of the theorem C3 on the run of \<^verbatim>\<open>TwoOpt\<close> above: the third call of the first
  episode runs with \<open>cleared\<close> reset and mirrors three of its four delta elements, and the
  first call of the second episode emits four delta elements and an empty delta of
  delta.
\<close>

theorem deltadelta_contained_and_empty_witness:
  "TwoOpt_MakeNextNeighbor tw_s2 ([], []) =
     Some (True, tw_s3, [tw_set 1 4, tw_set 0 3, tw_set 2 1, tw_set 3 2],
           [tw_set 1 4, tw_set 0 3, tw_set 3 2]) \<and>
   set [tw_set 1 4, tw_set 0 3, tw_set 3 2]
     \<subseteq> set [tw_set 1 4, tw_set 0 3, tw_set 2 1, tw_set 3 2] \<and>
   \<not> cleared tw_s3 \<and>
   TwoOpt_Start tw_s3 (tw_assignment (values' tw_s3)) = Some (Inr tw_t0) \<and>
   TwoOpt_MakeNextNeighbor tw_t0 ([], []) =
     Some (True, tw_t1, [tw_set 3 4, tw_set 2 3, tw_set 1 2, tw_set 0 1], [])"
  using deltadelta_contained_and_empty
    [where inc = True and skip = PathOperator_SkipUnchanged and mon = TwoOpt_MakeOneNeighbor
       and st = tw_s2 and st' = tw_s3
       and delta' = "[tw_set 1 4, tw_set 0 3, tw_set 2 1, tw_set 3 2]"
       and dd' = "[tw_set 1 4, tw_set 0 3, tw_set 3 2]"
       and t = tw_s3 and c = "tw_assignment (values' tw_s3)" and ?t0.0 = tw_t0 and ?t1.0 = tw_t1
       and ?delta1.0 = "[tw_set 3 4, tw_set 2 3, tw_set 1 2, tw_set 0 1]" and ?dd1.0 = "[]"]
    tw_third_eq tw_t0_eq tw_first_eq
  by (simp add: tw_third_def tw_first_def TwoOpt_MakeNextNeighbor_def)

subsection \<open>CompoundOperator\<close>

lemmas co_eval =
  co_sub_def co_restart_def co_Start_def CompoundOperatorNoRestart_def OperatorComparator_def
  co_MakeNextNeighbor_def cand_A1_def cand_B1_def cand_B2_def cand_C1_def
  co_c0_def co_c1_def co_c5_def co_c6_def co_r5_def CompoundOperator_def
  MoveTowardTargetLS_def IntVarLocalSearchOperator_def op_state.extend_def
  Start_def Start_step_def Size_def Contains_def ElementOf_def MTT_OnStart_def
  mtt_vars_def mtt_reference_def
  MakeNextNeighbor_def RevertChanges_def ApplyChanges_def
  SkipUnchanged_default_def SetValue_def MarkChange_def OldValue_def Var_def Value_def
  new_element_def elem_SetValue_def Let_def

lemma co_new_eq: "co_new = Inr co_c0"
  by (simp add: co_new_def co_eval)

lemma co_start_eq: "co_restart co_c0 = Inr co_c1"
  by (simp add: co_eval upt_rec)

lemma co_sweep4:
  "co_calls 4 co_c1 =
     Some ([(True, cand_A1), (True, cand_B1), (True, cand_B2), (True, cand_C1)], co_c5)"
  by (simp add: eval_nat_numeral co_eval MTT_MakeOneNeighbor.simps
      co_MakeNextNeighbor_loop.simps)

lemma co_sweep5: "co_calls 1 co_c5 = Some ([(False, [])], co_c6)"
  by (simp add: eval_nat_numeral co_eval MTT_MakeOneNeighbor.simps
      co_MakeNextNeighbor_loop.simps)

lemma co_full_sweep:
  "co_calls 5 co_c1 =
     Some ([(True, cand_A1), (True, cand_B1), (True, cand_B2), (True, cand_C1), (False, [])],
           co_c6)"
  by (simp add: eval_nat_numeral co_eval MTT_MakeOneNeighbor.simps
      co_MakeNextNeighbor_loop.simps)

lemma co_restart5: "co_restart co_c5 = Inr co_r5"
  by (simp add: co_eval upt_rec)

lemma co_restart6: "co_restart co_c6 = Inr co_c1"
  by (simp add: co_eval upt_rec)

lemma co_sweep_r5:
  "map_option fst (co_calls 5 co_r5) =
     Some [(True, cand_C1), (True, cand_A1), (True, cand_B1), (True, cand_B2), (False, [])]"
  by (simp add: eval_nat_numeral co_eval MTT_MakeOneNeighbor.simps
      co_MakeNextNeighbor_loop.simps)

text \<open>
  C8 (as amended). A compound operator over \<open>[A, B, C]\<close> with the no-restart evaluator,
  where A produces one candidate per episode, B two and C one: after \<^verbatim>\<open>Start\<close> the calls
  of \<^verbatim>\<open>MakeNextNeighbor\<close> yield A1, B1, B2, C1 and then false. A \<^verbatim>\<open>Start\<close> made right after
  C1 was returned, while \<open>index\<close> still points at C, sorts the sub-operators into the
  order C, A, B, and the next sweep yields C1, A1, B1, B2 and then false.
\<close>

theorem CompoundOperator_round_robin:
  "co_new = Inr co_c0 \<and> co_restart co_c0 = Inr co_c1 \<and>
   co_calls 4 co_c1 =
     Some ([(True, cand_A1), (True, cand_B1), (True, cand_B2), (True, cand_C1)], co_c5) \<and>
   co_calls 1 co_c5 = Some ([(False, [])], co_c6) \<and>
   co_index co_c5 = 2 \<and>
   co_restart co_c5 = Inr co_r5 \<and> operator_indices co_r5 = [2, 0, 1] \<and>
   map_option fst (co_calls 5 co_r5) =
     Some [(True, cand_C1), (True, cand_A1), (True, cand_B1), (True, cand_B2), (False, [])]"
  using co_new_eq co_start_eq co_sweep4 co_sweep5 co_restart5 co_sweep_r5
  by (simp add: co_c5_def co_r5_def)

text \<open>
  The claim as stated fails: the call that returns false wraps \<open>index\<close> back to 0, so a
  \<^verbatim>\<open>Start\<close> that follows the full sweep compares against the first sub-operator of the
  previous order and keeps the order A, B, C.
\<close>

theorem CompoundOperator_restart_after_exhaustion:
  "co_calls 5 co_c1 =
     Some ([(True, cand_A1), (True, cand_B1), (True, cand_B2), (True, cand_C1), (False, [])],
           co_c6) \<and>
   co_index co_c6 = 0 \<and>
   co_restart co_c6 = Inr co_c1 \<and> operator_indices co_c1 = [0, 1, 2] \<and>
   operator_indices co_c1 \<noteq> [2, 0, 1] \<and>
   map_option fst (co_calls 5 co_c1) =
     Some [(True, cand_A1), (True, cand_B1), (True, cand_B2), (True, cand_C1), (False, [])]"
  using co_full_sweep co_restart6 by (simp add: co_c1_def co_c6_def)

subsection \<open>FindOneNeighbor\<close>

lemma FilterAccept_eq: "FilterAccept fs ok = (ok \<and> list_all snd fs)"
  by (induction fs ok rule: FilterAccept.induct) auto

lemma iteration_counters:
  "neighbors (snd (iteration freq e d)) = neighbors d + of_bool (produced e) \<and>
   filtered_neighbors (snd (iteration freq e d)) = filtered_neighbors d + of_bool (passed_filters e) \<and>
   accepted_neighbors (snd (iteration freq e d)) = accepted_neighbors d + of_bool (committed e)"
  by (auto simp: iteration_def Let_def FilterAccept_eq produced_def passed_filters_def
      committed_def SynchronizeAll_def)

lemma iteration_ordered:
  "counters_ordered d \<Longrightarrow> counters_ordered (snd (iteration freq e d))"
  using iteration_counters [of freq e d]
  by (auto simp: counters_ordered_def committed_def passed_filters_def)

lemma Next_loop_ordered:
  "counters_ordered d \<Longrightarrow> counters_ordered (snd (Next_loop freq es d))"
proof (induction es arbitrary: d)
  case Nil
  then show ?case by simp
next
  case (Cons e es)
  have step: "counters_ordered (snd (iteration freq e d))"
    using Cons.prems by (rule iteration_ordered)
  obtain c d' where it: "iteration freq e d = (c, d')" by (cases "iteration freq e d")
  with step have "counters_ordered d'" by simp
  then show ?case using it Cons.IH [of d'] by (cases c) simp_all
qed

text \<open>
  C10. In every round of the loop of \<^verbatim>\<open>FindOneNeighbor::Next\<close> the counter \<open>neighbors\<close>
  grows by one exactly when the operator produced a candidate, \<open>filtered_neighbors\<close>
  exactly when the candidate was accepted by the meta-heuristic filter and by all local
  filters, and \<open>accepted_neighbors\<close> exactly when the nested solve committed it; so, from
  counters with \<open>accepted_neighbors \<le> filtered_neighbors \<le> neighbors\<close>, the order holds
  after the round, after any number of rounds of the loop, and after \<^verbatim>\<open>Next\<close>.
\<close>

theorem FindOneNeighbor_counters:
  assumes "counters_ordered d"
  shows "neighbors (snd (iteration freq e d)) = neighbors d + of_bool (produced e) \<and>
   filtered_neighbors (snd (iteration freq e d)) = filtered_neighbors d + of_bool (passed_filters e) \<and>
   accepted_neighbors (snd (iteration freq e d)) = accepted_neighbors d + of_bool (committed e) \<and>
   counters_ordered (snd (iteration freq e d)) \<and>
   counters_ordered (snd (Next_loop freq es d)) \<and>
   counters_ordered (snd (FindOneNeighbor_Next freq es d))"
proof -
  have "counters_ordered (if \<not> neighbor_found d then SynchronizeAll d else d)"
    using assms by (simp add: counters_ordered_def SynchronizeAll_def)
  then have "counters_ordered ((if \<not> neighbor_found d then SynchronizeAll d else d)\<lparr>counter := 0\<rparr>)"
    by (simp add: counters_ordered_def)
  then have "counters_ordered (snd (FindOneNeighbor_Next freq es d))"
    unfolding FindOneNeighbor_Next_def Let_def by (rule Next_loop_ordered)
  then show ?thesis
    using assms iteration_counters [of freq e d] iteration_ordered [of d freq e]
      Next_loop_ordered [of d freq es] by simp
qed

theorem FindOneNeighbor_counters_witness:
  "counters_ordered drv_initial \<and>
   snd (iteration 16 (hd drv_events) drv_initial) =
     \<lparr>neighbors = 1, filtered_neighbors = 0, accepted_neighbors = 0,
      neighbor_found = False, counter = 1\<rparr> \<and>
   FindOneNeighbor_Next 16 drv_events drv_initial =
     (ReturnNeighbor,
      \<lparr>neighbors = 3, filtered_neighbors = 2, accepted_neighbors = 1,
       neighbor_found = True, counter = 3\<rparr>) \<and>
   counters_ordered (snd (FindOneNeighbor_Next 16 drv_events drv_initial))"
proof -
  have h: "counters_ordered drv_initial"
    by (simp add: counters_ordered_def drv_initial_def)
  show ?thesis
    using h FindOneNeighbor_counters [OF h, of 16 "hd drv_events" drv_events]
    by (simp add: drv_initial_def drv_events_def iteration_def FindOneNeighbor_Next_def
        SynchronizeAll_def Let_def)
qed

subsection \<open>MoveTowardTargetLS\<close>

lemmas mtt_eval =
  MoveTowardTargetLS_def IntVarLocalSearchOperator_def op_state.extend_def
  Start_def Start_step_def Size_def Contains_def ElementOf_def MTT_OnStart_def
  mtt_vars_def mtt_reference_def mtt_s0_def mtt_s1_def mtt_s2_def mtt_s3_def
  mtt_next_def MakeNextNeighbor_def RevertChanges_def ApplyChanges_def
  SkipUnchanged_default_def SetValue_def MarkChange_def OldValue_def Var_def Value_def
  new_element_def elem_SetValue_def Let_def

lemma mtt_started_eq: "mtt_started = Inr mtt_s0"
  by (simp add: mtt_started_def mtt_eval upt_rec)

lemma mtt_call1:
  "mtt_next mtt_s0 = (True, mtt_s1, [elem_SetValue 1 (new_element (IntVar 0 0 1))], [])"
  by (simp add: mtt_eval MTT_MakeOneNeighbor.simps)

lemma mtt_call2:
  "mtt_next mtt_s1 = (True, mtt_s2, [elem_SetValue 1 (new_element (IntVar 2 0 1))], [])"
  by (simp add: mtt_eval MTT_MakeOneNeighbor.simps)

lemma mtt_call3: "mtt_next mtt_s2 = (False, mtt_s3, [], [])"
  by (simp add: mtt_eval MTT_MakeOneNeighbor.simps)

lemma RevertChanges_variable_index:
  "variable_index (RevertChanges inc b (st :: mtt_state)) = variable_index st"
proof -
  have "variable_index (RevertChanges_loop idxs s) = variable_index s"
    for idxs and s :: mtt_state
    by (induction idxs arbitrary: s) simp_all
  then show ?thesis by (simp add: RevertChanges_def Let_def)
qed

text \<open>
  C9. \<^verbatim>\<open>MoveTowardTargetLS\<close> over four variables, reference values \<open>[0,0,0,0]\<close>, target values
  \<open>[1,0,1,0]\<close>: \<^verbatim>\<open>Start\<close> leaves the cursor at 3; the first \<^verbatim>\<open>MakeNextNeighbor\<close> returns
  true with the single change \<open>var0 := 1\<close> (cursor 0), the second returns true with the
  single change \<open>var2 := 1\<close> (cursor 2), the third returns false (cursor 3). The cursor is
  never reset in between: the revert that opens every call leaves it where the previous
  call stopped.
\<close>

theorem MoveTowardTarget_scenario:
  "mtt_started = Inr mtt_s0 \<and> variable_index mtt_s0 = 3 \<and>
   mtt_next mtt_s0 = (True, mtt_s1, [elem_SetValue 1 (new_element (IntVar 0 0 1))], []) \<and>
   variable_index mtt_s1 = 0 \<and>
   mtt_next mtt_s1 = (True, mtt_s2, [elem_SetValue 1 (new_element (IntVar 2 0 1))], []) \<and>
   variable_index mtt_s2 = 2 \<and>
   mtt_next mtt_s2 = (False, mtt_s3, [], []) \<and>
   variable_index mtt_s3 = 3 \<and>
   (\<forall>st :: mtt_state. variable_index (RevertChanges False True st) = variable_index st)"
  using mtt_started_eq mtt_call1 mtt_call2 mtt_call3 RevertChanges_variable_index
  by (simp add: mtt_s0_def mtt_s1_def mtt_s2_def mtt_s3_def)

end
